theory Spec2Isabelle
  imports Main "HOL-Library.Sublist"
begin

section \<open>PyCurl: the Http client of HttpOld.py\<close>

text \<open>
  The class \<open>Http\<close> wraps the \<open>requests\<close> and \<open>ftplib\<close> libraries. Its methods are
  embedded as functions that take the client object (\<open>self\<close>) and the world outside it
  (the cookie jar file, the local files, the requests issued so far, the log, the FTP
  server) and return the outcome with both updated. A raised exception is the \<open>Inl\<close> of
  a sum type. The HTTP library is a parameter \<open>net\<close>: the answer of
  \<open>session.request\<close> to a request, given the requests sent before it.

  Python names that start with an underscore lose it: \<open>_request\<close> is \<open>request\<close>,
  \<open>_save_cookies\<close> is \<open>save_cookies\<close>, \<open>_error_message\<close> is \<open>error_message\<close>.
\<close>

subsection \<open>Values\<close>

datatype json = JNull | JBool bool | JNum int | JStr string
  | JArr "json list" | JObj "(string \<times> json) list"

type_synonym cookie_map = "string \<rightharpoonup> string"

text \<open>
  The exceptions the code raises or catches. \<open>RequestException msg st\<close> is any
  exception of the \<open>requests.exceptions.RequestException\<close> family with \<open>str(e) = msg\<close>;
  \<open>st\<close> is \<open>getattr(e.response, 'status_code', None)\<close>: the status of the response
  attached to it, \<open>None\<close> when there is none. \<open>OSError\<close> is Python's \<open>IOError\<close>.
  \<open>JSONDecodeError\<close> is \<open>json.JSONDecodeError\<close>; it and \<open>UnicodeDecodeError\<close> are
  subclasses of \<open>ValueError\<close> in Python, which no handler of the class catches.
  \<open>FTPError\<close> stands for the other \<open>ftplib\<close> errors.
\<close>

datatype exn =
    RequestException string "int option"
  | JSONDecodeError string
  | UnicodeDecodeError string
  | ValueError string
  | TypeError string
  | OSError string
  | error_perm string
  | FTPError string

fun exn_str :: "exn \<Rightarrow> string" where
  "exn_str (RequestException m st) = m"
| "exn_str (JSONDecodeError m) = m"
| "exn_str (UnicodeDecodeError m) = m"
| "exn_str (ValueError m) = m"
| "exn_str (TypeError m) = m"
| "exn_str (OSError m) = m"
| "exn_str (error_perm m) = m"
| "exn_str (FTPError m) = m"

fun is_RequestException :: "exn \<Rightarrow> bool" where
  "is_RequestException (RequestException m st) = True"
| "is_RequestException e = False"

text \<open>\<open>requests.exceptions.RequestException\<close> is a subclass of \<open>IOError\<close>.\<close>

fun is_IOError :: "exn \<Rightarrow> bool" where
  "is_IOError (OSError m) = True"
| "is_IOError (RequestException m st) = True"
| "is_IOError e = False"

fun is_JSONDecodeError :: "exn \<Rightarrow> bool" where
  "is_JSONDecodeError (JSONDecodeError m) = True"
| "is_JSONDecodeError e = False"

fun is_error_perm :: "exn \<Rightarrow> bool" where
  "is_error_perm (error_perm m) = True"
| "is_error_perm e = False"

datatype log_entry = Info string | Error string | Print string

subsection \<open>Strings\<close>

text \<open>
  Strings are lists of bytes. \<open>lower\<close> and \<open>upper\<close> change the ASCII letters only, which
  is what \<open>str.lower\<close> does to a string that then equals \<open>'get'\<close> or \<open>'post'\<close>.
  \<open>str_find\<close>, \<open>str_split\<close> and \<open>str_strip\<close> are the methods \<open>find\<close>, \<open>split\<close> and
  \<open>strip\<close> of \<open>str\<close>.
\<close>

definition lower_char :: "char \<Rightarrow> char" where
  "lower_char c =
     (let n = (of_char c :: nat) in if 65 \<le> n \<and> n \<le> 90 then char_of (n + 32) else c)"

definition upper_char :: "char \<Rightarrow> char" where
  "upper_char c =
     (let n = (of_char c :: nat) in if 97 \<le> n \<and> n \<le> 122 then char_of (n - 32) else c)"

definition lower :: "string \<Rightarrow> string" where
  "lower s = map lower_char s"

definition upper :: "string \<Rightarrow> string" where
  "upper s = map upper_char s"

fun str_nat :: "nat \<Rightarrow> string" where
  "str_nat n =
     (if n < 10 then [char_of (48 + n)] else str_nat (n div 10) @ [char_of (48 + n mod 10)])"

definition str_int :: "int \<Rightarrow> string" where
  "str_int i = (if i < 0 then CHR ''-'' # str_nat (nat (- i)) else str_nat (nat i))"

text \<open>\<open>s.find(sub)\<close>: the index of the first occurrence, or \<open>-1\<close>.\<close>

fun find_from :: "string \<Rightarrow> string \<Rightarrow> nat \<Rightarrow> int" where
  "find_from sub [] i = (if sub = [] then int i else - 1)"
| "find_from sub (c # cs) i =
     (if prefix sub (c # cs) then int i else find_from sub cs (Suc i))"

definition str_find :: "string \<Rightarrow> string \<Rightarrow> int" where
  "str_find s sub = find_from sub s 0"

text \<open>\<open>sub in s\<close> on strings.\<close>

definition contains :: "string \<Rightarrow> string \<Rightarrow> bool" where
  "contains s sub = (str_find s sub \<noteq> - 1)"

text \<open>\<open>s.split(sep)\<close> for a one-character separator: \<open>''.split('/') = ['']\<close>.\<close>

fun str_split :: "string \<Rightarrow> char \<Rightarrow> string list" where
  "str_split [] sep = [[]]"
| "str_split (c # cs) sep =
     (if c = sep then [] # str_split cs sep
      else (case str_split cs sep of [] \<Rightarrow> [[c]] | p # ps \<Rightarrow> (c # p) # ps))"

text \<open>\<open>s.strip(chars)\<close> for a one-character set.\<close>

definition str_strip :: "string \<Rightarrow> char \<Rightarrow> string" where
  "str_strip s ch = rev (dropWhile (\<lambda>c. c = ch) (rev (dropWhile (\<lambda>c. c = ch) s)))"

subsection \<open>The world outside the client\<close>

text \<open>
  The file \<open>cookies.json\<close>, as \<open>open\<close> followed by \<open>json.load\<close> sees it:
  \<^item> \<open>Missing\<close> or \<open>Unreadable\<close>: \<open>open\<close> raises \<open>IOError\<close>;
  \<^item> \<open>Undecodable m\<close>: the bytes are no text in the encoding of \<open>open\<close>, and reading
    them raises \<open>UnicodeDecodeError\<close> with the message \<open>m\<close>;
  \<^item> \<open>Malformed\<close>: the text is no JSON document, \<open>json.load\<close> raises
    \<open>json.JSONDecodeError\<close>;
  \<^item> \<open>NotObject t\<close>: a JSON document that is no object (an array, a string, a number,
    \<open>true\<close>, \<open>false\<close>, \<open>null\<close>), which \<open>json.load\<close> returns as a value of the Python
    type \<open>t\<close> (\<open>list\<close>, \<open>str\<close>, \<open>int\<close>, \<open>float\<close>, \<open>bool\<close>, \<open>NoneType\<close>);
  \<^item> \<open>Stored m\<close>: a JSON object from cookie names to cookie values, which is what
    \<open>_save_cookies\<close> writes.
\<close>

datatype jar_file =
    Missing
  | Unreadable
  | Undecodable string
  | Malformed
  | NotObject string
  | Stored cookie_map

text \<open>
  What a file that has just been written holds, as a later \<open>open\<close> and \<open>json.load\<close> of
  it see its bytes.
\<close>

datatype document =
    DUndecodable string
  | DMalformed
  | DNotObject string
  | DObject cookie_map

fun holding :: "document \<Rightarrow> jar_file" where
  "holding (DUndecodable m) = Undecodable m"
| "holding DMalformed = Malformed"
| "holding (DNotObject t) = NotObject t"
| "holding (DObject m) = Stored m"

record response =
  status_code :: int
  reason :: string
  resp_url :: string
  resp_headers :: "string \<rightharpoonup> string"
  resp_cookies :: "(string \<times> string) list"
  resp_text :: string
  resp_json :: "exn + json"
  iter_content :: "nat \<Rightarrow> string list \<times> exn option"

text \<open>
  \<open>resp_headers\<close> is the case-insensitive dictionary \<open>response.headers\<close>, keyed by
  the lower-case header name. \<open>resp_cookies\<close> lists the cookies of
  \<open>response.cookies\<close> in iteration order. \<open>resp_json\<close> is what \<open>response.json()\<close>
  returns or raises. \<open>iter_content n\<close> gives the chunks that the iterator
  \<open>response.iter_content(chunk_size=n)\<close> yields and the exception that ends the
  stream early, if any.
\<close>

record http_request =
  req_method :: string
  req_url :: string
  req_params :: "json option"
  req_json :: "json option"
  req_headers :: "string \<rightharpoonup> string"
  req_auth :: "(string \<times> string) option"
  req_timeout :: "int option"
  req_allow_redirects :: bool
  req_cookies :: cookie_map
  req_stream :: bool

type_synonym net = "http_request list \<Rightarrow> http_request \<Rightarrow> exn + response"

datatype ftp_cmd =
    CONNECT string int
  | LOGIN string string
  | PASV bool
  | CWD string
  | MKD string
  | STOR string string
  | QUIT

text \<open>
  The FTP server, as far as the upload sees it: whether it accepts the connection and
  the login, the directories that exist (by the name the client sends), the
  directories it refuses to create, whether it accepts a stored file, the files stored
  (directory, name, content), and the current directory.
\<close>

record ftp_server =
  accepts :: bool
  login_ok :: bool
  dirs :: "string set"
  mkd_denied :: "string set"
  stor_ok :: bool
  stored :: "(string \<times> string \<times> string) list"
  cwd :: string

record world =
  jar_file :: jar_file
  jar_write_error :: "string option"
  is_jar :: "string \<Rightarrow> bool"
  json_view :: "string \<Rightarrow> document"
  files :: "string \<rightharpoonup> string"
  open_error :: "string \<Rightarrow> string option"
  sent :: "http_request list"
  log :: "log_entry list"
  ftp :: ftp_server
  ftp_sent :: "ftp_cmd list"

text \<open>
  \<open>jar_file\<close> is the one content of \<open>cookies.json\<close>, and \<open>jar_write_error\<close> is the
  message of the \<open>IOError\<close> that opening it for writing raises, \<open>None\<close> when the file
  can be written. \<open>is_jar p\<close> tells whether the path \<open>p\<close> names that file
  (\<open>cookies.json\<close> of the working directory, under whatever name the file system
  resolves to it), and \<open>json_view b\<close> is what a file holds for \<open>json.load\<close> once the
  bytes \<open>b\<close> have been written to it; a file that has been written is taken to be
  readable. \<open>files\<close> are the other local files with their content, by path: a path that
  names \<open>cookies.json\<close> is no key of it, and the upload takes its local file there.
  \<open>open_error p\<close> is the message of the error that opening such a path \<open>p\<close> for writing
  raises, if any. \<open>sent\<close> and \<open>ftp_sent\<close> list the HTTP requests and the FTP commands
  issued, oldest first.
\<close>

text \<open>
  The calls on a local path \<open>p\<close> that the download makes: \<open>open(p, 'wb')\<close>, the
  writes to the file until it is closed, and \<open>os.path.exists(p)\<close>. A path that names
  \<open>cookies.json\<close> reaches that file.
\<close>

definition open_wb :: "world \<Rightarrow> string \<Rightarrow> string option" where
  "open_wb w p = (if is_jar w p then jar_write_error w else open_error w p)"

definition file_write :: "string \<Rightarrow> string \<Rightarrow> world \<Rightarrow> world" where
  "file_write p content w =
     (if is_jar w p then w\<lparr>jar_file := holding (json_view w content)\<rparr>
      else w\<lparr>files := (files w)(p \<mapsto> content)\<rparr>)"

definition path_exists :: "world \<Rightarrow> string \<Rightarrow> bool" where
  "path_exists w p = (if is_jar w p then jar_file w \<noteq> Missing else files w p \<noteq> None)"

subsection \<open>The client object\<close>

record http =
  headers :: "string \<rightharpoonup> string"
  cookies :: cookie_map
  auth :: "(string \<times> string) option"
  timeout :: "int option"
  follow_redirects :: bool
  error_message :: "string option"
  error_code :: "int option"
  base_url :: string

definition init :: http where
  "init = \<lparr>headers = Map.empty, cookies = Map.empty, auth = None, timeout = None,
     follow_redirects = True, error_message = None, error_code = None, base_url = []\<rparr>"

definition set_timeout :: "int \<Rightarrow> http \<Rightarrow> http" where
  "set_timeout t self = self\<lparr>timeout := Some t\<rparr>"

definition set_header :: "string \<Rightarrow> string \<Rightarrow> http \<Rightarrow> http" where
  "set_header key v self = self\<lparr>headers := (headers self)(key \<mapsto> v)\<rparr>"

definition set_cookie :: "string \<Rightarrow> string \<Rightarrow> http \<Rightarrow> http" where
  "set_cookie name v self = self\<lparr>cookies := (cookies self)(name \<mapsto> v)\<rparr>"

subsection \<open>The cookie jar\<close>

text \<open>
  The value that \<open>json.load\<close> returns: a dictionary, or a value of another Python
  type, given by the name of the type.
\<close>

datatype py_value = Dict cookie_map | NonDict string

text \<open>\<open>open('cookies.json', 'r')\<close> followed by \<open>json.load\<close>.\<close>

fun json_load :: "jar_file \<Rightarrow> exn + py_value" where
  "json_load Missing = Inl (OSError ''No such file or directory'')"
| "json_load Unreadable = Inl (OSError ''Permission denied'')"
| "json_load (Undecodable m) = Inl (UnicodeDecodeError m)"
| "json_load Malformed = Inl (JSONDecodeError ''Expecting value'')"
| "json_load (NotObject t) = Inr (NonDict t)"
| "json_load (Stored m) = Inr (Dict m)"

text \<open>
  The inner \<open>try\<close> of \<open>_save_cookies\<close> and of \<open>_request\<close>, the same text in both:
  \<open>IOError\<close> and \<open>json.JSONDecodeError\<close> give the empty dictionary, any other
  exception leaves the \<open>try\<close>.
\<close>

definition load_cookies :: "world \<Rightarrow> exn + py_value" where
  "load_cookies w =
     (case json_load (jar_file w) of
        Inl e \<Rightarrow> if is_IOError e \<or> is_JSONDecodeError e then Inr (Dict Map.empty) else Inl e
      | Inr v \<Rightarrow> Inr v)"

text \<open>
  The dictionary display \<open>{**a, **b}\<close> of lines 136 and 167, where \<open>a\<close> is the value
  loaded from the file: a value that is no mapping raises a \<open>TypeError\<close>.
\<close>

fun dict_merge :: "py_value \<Rightarrow> cookie_map \<Rightarrow> exn + cookie_map" where
  "dict_merge (Dict a) b = Inr (a ++ b)"
| "dict_merge (NonDict t) b =
     Inl (TypeError ([CHR 0x27] @ t @ [CHR 0x27] @ '' object is not a mapping''))"

text \<open>\<open>requests.utils.dict_from_cookiejar\<close>: a later cookie of the same name wins.\<close>

definition dict_from_cookiejar :: "(string \<times> string) list \<Rightarrow> cookie_map" where
  "dict_from_cookiejar cj = fold (\<lambda>(n, v) m. m(n \<mapsto> v)) cj Map.empty"

text \<open>
  \<open>_save_cookies\<close>. The outer \<open>try\<close> catches \<open>IOError\<close> only, so another exception
  leaves the method; the result is the exception, if any, and the world.
\<close>

definition save_cookies :: "(string \<times> string) list \<Rightarrow> world \<Rightarrow> exn option \<times> world" where
  "save_cookies cj w =
     (case load_cookies w of
        Inl e \<Rightarrow>
          if is_IOError e
          then (None, w\<lparr>log := log w @ [Error (''Error saving cookies to file: '' @ exn_str e)]\<rparr>)
          else (Some e, w)
      | Inr existing_cookies \<Rightarrow>
          (let new_cookies = dict_from_cookiejar cj
           in case dict_merge existing_cookies new_cookies of
                Inl e \<Rightarrow>
                  if is_IOError e
                  then (None, w\<lparr>log := log w @ [Error (''Error saving cookies to file: '' @ exn_str e)]\<rparr>)
                  else (Some e, w)
              | Inr all_cookies \<Rightarrow>
                  (case jar_write_error w of
                     Some m \<Rightarrow>
                       (None, w\<lparr>log := log w @ [Error (''Error saving cookies to file: '' @ m)]\<rparr>)
                   | None \<Rightarrow>
                       (None, w\<lparr>jar_file := Stored all_cookies,
                          log := log w @ [Info (''Cookies saved to file '' @ [CHR 0x27]
                            @ ''cookies.json'' @ [CHR 0x27])]\<rparr>))))"

subsection \<open>Verb dispatch\<close>

text \<open>
  \<open>response.raise_for_status()\<close> of the \<open>requests\<close> library: a status from 400 to
  599 raises an \<open>HTTPError\<close> that carries the response.
\<close>

definition raise_for_status :: "response \<Rightarrow> exn option" where
  "raise_for_status r =
     (if 400 \<le> status_code r \<and> status_code r < 500
      then Some (RequestException (str_int (status_code r) @ '' Client Error: '' @ reason r
             @ '' for url: '' @ resp_url r) (Some (status_code r)))
      else if 500 \<le> status_code r \<and> status_code r < 600
      then Some (RequestException (str_int (status_code r) @ '' Server Error: '' @ reason r
             @ '' for url: '' @ resp_url r) (Some (status_code r)))
      else None)"

text \<open>The keyword arguments a verb passes on: \<open>params\<close> and \<open>json\<close>.\<close>

record kwargs =
  kw_params :: "json option"
  kw_json :: "json option"

datatype body = JsonBody json | TextBody string

text \<open>\<open>response.headers.get(name, default)\<close>.\<close>

definition header_get :: "response \<Rightarrow> string \<Rightarrow> string \<Rightarrow> string" where
  "header_get r name dflt = (case resp_headers r name of None \<Rightarrow> dflt | Some v \<Rightarrow> v)"

text \<open>
  Line 184: the parsed JSON when the content type says JSON, the text otherwise.
\<close>

definition response_body :: "response \<Rightarrow> exn + body" where
  "response_body response =
     (if contains (header_get response ''content-type'' []) ''application/json''
      then (case resp_json response of Inl e \<Rightarrow> Inl e | Inr j \<Rightarrow> Inr (JsonBody j))
      else Inr (TextBody (resp_text response)))"

text \<open>
  Lines 169 to 175 and the arguments of \<open>session.request\<close> in line 181: the request
  that \<open>_request\<close> issues.
\<close>

definition request_kwargs :: "string \<Rightarrow> string \<Rightarrow> kwargs \<Rightarrow> http \<Rightarrow> cookie_map \<Rightarrow> http_request" where
  "request_kwargs method url kw self combined_cookies =
     \<lparr>req_method = method, req_url = url, req_params = kw_params kw, req_json = kw_json kw,
      req_headers = headers self, req_auth = auth self, req_timeout = timeout self,
      req_allow_redirects = follow_redirects self, req_cookies = combined_cookies,
      req_stream = False\<rparr>"

text \<open>
  The body of the \<open>try\<close> of \<open>_request\<close>, lines 161 to 184. What it has done to the
  client and to the world when an exception leaves it stays done.
\<close>

definition request_try ::
  "net \<Rightarrow> string \<Rightarrow> string \<Rightarrow> kwargs \<Rightarrow> http \<Rightarrow> world \<Rightarrow> (exn + body) \<times> http \<times> world" where
  "request_try net method url kw self w =
     (case load_cookies w of
        Inl e \<Rightarrow> (Inl e, self, w)
      | Inr saved_cookies \<Rightarrow>
          (case dict_merge saved_cookies (cookies self) of
             Inl e \<Rightarrow> (Inl e, self, w)
           | Inr combined_cookies \<Rightarrow>
               (let req = request_kwargs method url kw self combined_cookies;
                    self1 = self\<lparr>error_message := None, error_code := None, base_url := url\<rparr>;
                    w1 = w\<lparr>sent := sent w @ [req]\<rparr>
                in case net (sent w) req of
                     Inl e \<Rightarrow> (Inl e, self1, w1)
                   | Inr response \<Rightarrow>
                       (case raise_for_status response of
                          Some e \<Rightarrow> (Inl e, self1, w1)
                        | None \<Rightarrow>
                            (case save_cookies (resp_cookies response) w1 of
                               (Some e, w2) \<Rightarrow> (Inl e, self1, w2)
                             | (None, w2) \<Rightarrow> (response_body response, self1, w2))))))"

text \<open>\<open>str(self._error_code)\<close> in the log line.\<close>

definition str_code :: "int option \<Rightarrow> string" where
  "str_code c = (case c of None \<Rightarrow> ''None'' | Some i \<Rightarrow> str_int i)"

text \<open>
  \<open>_request\<close>: the \<open>try\<close> with its handler, which catches the
  \<open>RequestException\<close> family only, records the error, logs it and raises it again.
\<close>

definition request ::
  "net \<Rightarrow> string \<Rightarrow> string \<Rightarrow> kwargs \<Rightarrow> http \<Rightarrow> world \<Rightarrow> (exn + body) \<times> http \<times> world" where
  "request net method url kw self w =
     (case request_try net method url kw self w of
        (Inl e, self', w') \<Rightarrow>
          (case e of
             RequestException m st \<Rightarrow>
               (Inl e,
                self'\<lparr>error_message := Some (exn_str e), error_code := st\<rparr>,
                w'\<lparr>log := log w' @ [Error (upper method @ '' request to '' @ url
                     @ '' failed: '' @ exn_str e @ '' (code: '' @ str_code st @ '')'')]\<rparr>)
           | _ \<Rightarrow> (Inl e, self', w'))
      | (Inr b, self', w') \<Rightarrow> (Inr b, self', w'))"

definition get :: "net \<Rightarrow> string \<Rightarrow> json option \<Rightarrow> http \<Rightarrow> world \<Rightarrow> (exn + body) \<times> http \<times> world" where
  "get net url params self w =
     request net ''get'' url \<lparr>kw_params = params, kw_json = None\<rparr> self w"

definition post :: "net \<Rightarrow> string \<Rightarrow> json option \<Rightarrow> http \<Rightarrow> world \<Rightarrow> (exn + body) \<times> http \<times> world" where
  "post net url data self w =
     request net ''post'' url \<lparr>kw_params = None, kw_json = data\<rparr> self w"

definition put :: "net \<Rightarrow> string \<Rightarrow> json option \<Rightarrow> http \<Rightarrow> world \<Rightarrow> (exn + body) \<times> http \<times> world" where
  "put net url data self w =
     request net ''put'' url \<lparr>kw_params = None, kw_json = data\<rparr> self w"

definition delete :: "net \<Rightarrow> string \<Rightarrow> http \<Rightarrow> world \<Rightarrow> (exn + body) \<times> http \<times> world" where
  "delete net url self w =
     request net ''delete'' url \<lparr>kw_params = None, kw_json = None\<rparr> self w"

subsection \<open>Download\<close>

text \<open>
  \<open>int(s)\<close> on an ASCII string, base 10: the white space around it (space, tab, line
  feed, vertical tab, form feed, carriage return) is dropped, a sign may come first, and
  single underscores may stand between digits. Anything else is a \<open>ValueError\<close>, whose
  message quotes the string (as \<open>repr\<close> does for a string that needs no escape).
\<close>

definition is_space :: "char \<Rightarrow> bool" where
  "is_space c = (let n = (of_char c :: nat) in n = 32 \<or> (9 \<le> n \<and> n \<le> 13))"

definition is_digit :: "char \<Rightarrow> bool" where
  "is_digit c = (let n = (of_char c :: nat) in 48 \<le> n \<and> n \<le> 57)"

fun digits_val :: "string \<Rightarrow> nat \<Rightarrow> bool \<Rightarrow> nat option" where
  "digits_val [] acc after_digit = (if after_digit then Some acc else None)"
| "digits_val (c # cs) acc after_digit =
     (if is_digit c then digits_val cs (acc * 10 + (of_char c - 48)) True
      else if c = CHR ''_'' \<and> after_digit then digits_val cs acc False
      else None)"

definition int_of_str :: "string \<Rightarrow> exn + int" where
  "int_of_str s =
     (let t = rev (dropWhile is_space (rev (dropWhile is_space s)));
          bad = Inl (ValueError (''invalid literal for int() with base 10: ''
                  @ [CHR 0x27] @ s @ [CHR 0x27]))
      in case t of
           [] \<Rightarrow> bad
         | c # cs \<Rightarrow>
             if c = CHR ''-'' then (case digits_val cs 0 False of None \<Rightarrow> bad | Some n \<Rightarrow> Inr (- int n))
             else if c = CHR ''+'' then (case digits_val cs 0 False of None \<Rightarrow> bad | Some n \<Rightarrow> Inr (int n))
             else (case digits_val t 0 False of None \<Rightarrow> bad | Some n \<Rightarrow> Inr (int n)))"

text \<open>
  \<open>os.path.join(a, b)\<close> on POSIX. The second argument is the file name, which is
  \<open>None\<close> when neither the response nor the caller gave one: then \<open>join\<close> raises a
  \<open>TypeError\<close>.
\<close>

definition path_join :: "string \<Rightarrow> string option \<Rightarrow> exn + string" where
  "path_join a b =
     (case b of
        None \<Rightarrow> Inl (TypeError (''join() argument must be str, bytes, or os.PathLike object, not ''
                  @ [CHR 0x27] @ ''NoneType'' @ [CHR 0x27]))
      | Some f \<Rightarrow>
          if prefix ''/'' f then Inr f
          else if a = [] \<or> suffix ''/'' a then Inr (a @ f)
          else Inr (a @ ''/'' @ f))"

datatype dl_result = RFalse | RNone | RPath string

text \<open>Lines 360 to 369: the file name of the download.\<close>

definition dl_filename :: "response \<Rightarrow> string option \<Rightarrow> string option" where
  "dl_filename response file_name =
     (case resp_headers response ''content-disposition'' of
        None \<Rightarrow> file_name
      | Some content_disposition \<Rightarrow>
          if content_disposition \<noteq> [] then
            (let filename_index = str_find content_disposition ''filename='' in
             if filename_index \<noteq> - 1
             then Some (str_strip (drop (nat filename_index + length ''filename='') content_disposition)
                         (CHR 0x22))
             else file_name)
          else file_name)"

text \<open>The loop of lines 377 to 381 over the chunks: the file content and the size so far.\<close>

fun write_chunks :: "string list \<Rightarrow> string \<times> nat \<Rightarrow> string \<times> nat" where
  "write_chunks [] st = st"
| "write_chunks (chunk # rest) (content, downloaded_size) =
     (if chunk \<noteq> []
      then write_chunks rest (content @ chunk, downloaded_size + length chunk)
      else write_chunks rest (content, downloaded_size))"

text \<open>Lines 356 to 387: what the \<open>try\<close> does with the response.\<close>

definition dl_save ::
  "response \<Rightarrow> nat \<Rightarrow> string \<Rightarrow> string option \<Rightarrow> world \<Rightarrow> (exn + dl_result) \<times> world" where
  "dl_save response chunk_size download_dir file_name w =
     (case raise_for_status response of
        Some e \<Rightarrow> (Inl e, w)
      | None \<Rightarrow>
          (case (case resp_headers response ''content-length'' of
                   None \<Rightarrow> Inr 0 | Some v \<Rightarrow> int_of_str v) of
             Inl e \<Rightarrow> (Inl e, w)
           | Inr total_size \<Rightarrow>
               (let filename = dl_filename response file_name in
                case path_join download_dir filename of
                  Inl e \<Rightarrow> (Inl e, w)
                | Inr download_path \<Rightarrow>
                    (case open_wb w download_path of
                       Some m \<Rightarrow> (Inl (OSError m), w)
                     | None \<Rightarrow>
                         (let (chunks, err) = iter_content response chunk_size;
                              (content, downloaded_size) = write_chunks chunks ([], 0);
                              w1 = file_write download_path content w
                          in case err of
                               Some e \<Rightarrow> (Inl e, w1)
                             | None \<Rightarrow>
                                 if path_exists w1 download_path
                                 then (Inr (RPath download_path), w1)
                                 else (Inr RNone, w1\<lparr>log := log w1 @ [Print ''Downloaded file not found.'']\<rparr>))))))"

text \<open>
  \<open>session.get\<close> or \<open>session.post\<close> with the request \<open>req\<close>, and the rest of the
  \<open>try\<close>.
\<close>

definition dl_send ::
  "net \<Rightarrow> http_request \<Rightarrow> nat \<Rightarrow> string \<Rightarrow> string option \<Rightarrow> world \<Rightarrow> (exn + dl_result) \<times> world" where
  "dl_send net req chunk_size download_dir file_name w =
     (let w1 = w\<lparr>sent := sent w @ [req]\<rparr>
      in case net (sent w) req of
           Inl e \<Rightarrow> (Inl e, w1)
         | Inr response \<Rightarrow> dl_save response chunk_size download_dir file_name w1)"

text \<open>
  The requests of lines 348 to 352. \<open>session.get\<close> and \<open>session.post\<close> follow
  redirects and get \<open>self.cookies\<close> as their cookies; \<open>post\<close> sends the
  parameters as its JSON body.
\<close>

definition session_get :: "string \<Rightarrow> json option \<Rightarrow> http \<Rightarrow> http_request" where
  "session_get url params self =
     \<lparr>req_method = ''GET'', req_url = url, req_params = params, req_json = None,
      req_headers = headers self, req_auth = auth self, req_timeout = timeout self,
      req_allow_redirects = True, req_cookies = cookies self, req_stream = True\<rparr>"

definition session_post :: "string \<Rightarrow> json option \<Rightarrow> http \<Rightarrow> http_request" where
  "session_post url params self =
     \<lparr>req_method = ''POST'', req_url = url, req_params = None, req_json = params,
      req_headers = headers self, req_auth = auth self, req_timeout = timeout self,
      req_allow_redirects = True, req_cookies = cookies self, req_stream = True\<rparr>"

text \<open>The body of the \<open>try\<close> of \<open>download_large_file\<close>.\<close>

definition dl_try ::
  "net \<Rightarrow> string \<Rightarrow> string \<Rightarrow> json option \<Rightarrow> nat \<Rightarrow> string \<Rightarrow> string option \<Rightarrow> http \<Rightarrow> world
     \<Rightarrow> (exn + dl_result) \<times> world" where
  "dl_try net url method params chunk_size download_dir file_name self w =
     (if lower method = ''get'' then
        dl_send net (session_get url params self) chunk_size download_dir file_name w
      else if lower method = ''post'' then
        dl_send net (session_post url params self) chunk_size download_dir file_name w
      else (Inl (ValueError (''Unsupported HTTP method: '' @ method)), w))"

text \<open>
  \<open>download_large_file\<close>: without a directory it prints and returns \<open>False\<close>; the
  handler of its \<open>try\<close> catches \<open>requests.RequestException\<close> only, prints and
  returns \<open>None\<close>.
\<close>

definition download_large_file ::
  "net \<Rightarrow> string \<Rightarrow> string \<Rightarrow> json option \<Rightarrow> nat \<Rightarrow> string option \<Rightarrow> string option \<Rightarrow> http \<Rightarrow> world
     \<Rightarrow> (exn + dl_result) \<times> world" where
  "download_large_file net url method params chunk_size download_dir file_name self w =
     (case download_dir of
        None \<Rightarrow> (Inr RFalse, w\<lparr>log := log w @ [Print ''No download directory provided. Download skipped.'']\<rparr>)
      | Some d \<Rightarrow>
          if d = []
          then (Inr RFalse, w\<lparr>log := log w @ [Print ''No download directory provided. Download skipped.'']\<rparr>)
          else
            (case dl_try net url method params chunk_size d file_name self w of
               (Inl e, w') \<Rightarrow>
                 if is_RequestException e
                 then (Inr RNone, w'\<lparr>log := log w' @ [Print (''Error downloading large file: '' @ exn_str e)]\<rparr>)
                 else (Inl e, w')
             | (Inr r, w') \<Rightarrow> (Inr r, w')))"

subsection \<open>FTP upload\<close>

text \<open>
  The calls on the \<open>ftplib.FTP\<close> object. Each is recorded in \<open>ftp_sent\<close> and
  answered by the server: \<open>cwd\<close> enters a directory that exists, \<open>mkd\<close> creates a
  directory that does not exist yet, whose parent exists and which the server does not
  refuse, \<open>storbinary\<close> stores the file in the current directory. A refusal is an
  \<open>error_perm\<close>; a refused connection is an \<open>OSError\<close>.
\<close>

definition basename :: "string \<Rightarrow> string" where
  "basename p = rev (takeWhile (\<lambda>c. c \<noteq> CHR ''/'') (rev p))"

definition parent :: "string \<Rightarrow> string" where
  "parent p =
     (let q = rev (drop 1 (dropWhile (\<lambda>c. c \<noteq> CHR ''/'') (rev p)))
      in if q = [] then ''/'' else q)"

definition ftp_connect :: "string \<Rightarrow> int \<Rightarrow> world \<Rightarrow> exn option \<times> world" where
  "ftp_connect host port w =
     (let w1 = w\<lparr>ftp_sent := ftp_sent w @ [CONNECT host port]\<rparr>
      in if accepts (ftp w) then (None, w1) else (Some (OSError ''Connection refused''), w1))"

definition ftp_login :: "string \<Rightarrow> string \<Rightarrow> world \<Rightarrow> exn option \<times> world" where
  "ftp_login user passwd w =
     (let w1 = w\<lparr>ftp_sent := ftp_sent w @ [LOGIN user passwd]\<rparr>
      in if login_ok (ftp w) then (None, w1) else (Some (error_perm ''530 Login incorrect.''), w1))"

definition ftp_set_pasv :: "bool \<Rightarrow> world \<Rightarrow> world" where
  "ftp_set_pasv passive w = w\<lparr>ftp_sent := ftp_sent w @ [PASV passive]\<rparr>"

definition ftp_cwd :: "string \<Rightarrow> world \<Rightarrow> exn option \<times> world" where
  "ftp_cwd p w =
     (let w1 = w\<lparr>ftp_sent := ftp_sent w @ [CWD p]\<rparr>
      in if p \<in> dirs (ftp w)
         then (None, w1\<lparr>ftp := (ftp w)\<lparr>cwd := p\<rparr>\<rparr>)
         else (Some (error_perm ''550 Failed to change directory.''), w1))"

definition ftp_mkd :: "string \<Rightarrow> world \<Rightarrow> exn option \<times> world" where
  "ftp_mkd p w =
     (let w1 = w\<lparr>ftp_sent := ftp_sent w @ [MKD p]\<rparr>
      in if p \<notin> dirs (ftp w) \<and> p \<notin> mkd_denied (ftp w) \<and> parent p \<in> dirs (ftp w)
         then (None, w1\<lparr>ftp := (ftp w)\<lparr>dirs := insert p (dirs (ftp w))\<rparr>\<rparr>)
         else (Some (error_perm ''550 Create directory operation failed.''), w1))"

definition ftp_storbinary :: "string \<Rightarrow> string \<Rightarrow> world \<Rightarrow> exn option \<times> world" where
  "ftp_storbinary name content w =
     (let w1 = w\<lparr>ftp_sent := ftp_sent w @ [STOR name content]\<rparr>
      in if stor_ok (ftp w)
         then (None, w1\<lparr>ftp := (ftp w)\<lparr>stored := stored (ftp w) @ [(cwd (ftp w), name, content)]\<rparr>\<rparr>)
         else (Some (error_perm ''553 Could not create file.''), w1))"

definition ftp_quit :: "world \<Rightarrow> world" where
  "ftp_quit w = w\<lparr>ftp_sent := ftp_sent w @ [QUIT]\<rparr>"

definition logging :: "log_entry \<Rightarrow> world \<Rightarrow> world" where
  "logging entry w = w\<lparr>log := log w @ [entry]\<rparr>"

text \<open>
  The loop of lines 283 to 290 over the parts of the directory name: the exception that
  leaves it, if any, and the world.
\<close>

fun make_dirs :: "string list \<Rightarrow> string \<Rightarrow> world \<Rightarrow> exn option \<times> world" where
  "make_dirs [] current_dir w = (None, w)"
| "make_dirs (dir # rest) current_dir w =
     (if dir \<noteq> [] then
        (let current_dir1 = current_dir @ ''/'' @ dir
         in case ftp_cwd current_dir1 w of
              (None, w1) \<Rightarrow> make_dirs rest current_dir1 w1
            | (Some e, w1) \<Rightarrow>
                if is_error_perm e then
                  (case ftp_mkd current_dir1 w1 of
                     (Some e2, w2) \<Rightarrow> (Some e2, w2)
                   | (None, w2) \<Rightarrow>
                       (case ftp_cwd current_dir1 w2 of
                          (Some e3, w3) \<Rightarrow> (Some e3, w3)
                        | (None, w3) \<Rightarrow> make_dirs rest current_dir1 w3))
                else (Some e, w1))
      else make_dirs rest current_dir w)"

definition str_bool :: "bool \<Rightarrow> string" where
  "str_bool b = (if b then ''True'' else ''False'')"

text \<open>Lines 295 to 315: the transfer, once the client is in the directory.\<close>

definition upload_store :: "string \<Rightarrow> string \<Rightarrow> world \<Rightarrow> (exn + string option) \<times> world" where
  "upload_store file_path upload_dir w =
     (let w1 = logging (Info (''Changed to directory '' @ upload_dir @ '' on FTP server.'')) w
      in case files w1 file_path of
           None \<Rightarrow> (Inl (OSError ''No such file or directory''), w1)
         | Some content \<Rightarrow>
             (case ftp_storbinary (basename file_path) content w1 of
                (Some e, w2) \<Rightarrow> (Inl e, w2)
              | (None, w2) \<Rightarrow>
                  (let w3 = logging (Info (''File '' @ basename file_path
                              @ '' uploaded and overwritten successfully.'')) w2;
                       uploaded_path = upload_dir @ ''/'' @ basename file_path;
                       w4 = logging (Info (''File uploaded successfully to '' @ uploaded_path @ ''.'')) w3
                   in (Inr (Some uploaded_path), w4))))"

text \<open>
  The body of the outer \<open>try\<close> of \<open>upload_ftp\<close>: the value returned or the exception,
  whether \<open>ftp.sock\<close> is set, and the world.
\<close>

definition upload_try ::
  "string \<Rightarrow> string \<Rightarrow> string \<Rightarrow> string \<Rightarrow> string \<Rightarrow> int \<Rightarrow> bool \<Rightarrow> world
     \<Rightarrow> (exn + string option) \<times> bool \<times> world" where
  "upload_try host username password file_path upload_dir port passive w =
     (case ftp_connect host port w of
        (Some e, w1) \<Rightarrow> (Inl e, False, w1)
      | (None, w1) \<Rightarrow>
          (case ftp_login username password w1 of
             (Some e, w2) \<Rightarrow> (Inl e, True, w2)
           | (None, w2) \<Rightarrow>
               (let w3 = logging (Info (''Connected to FTP server '' @ host @ '':'' @ str_int port
                           @ '' with passive mode set to '' @ str_bool passive @ ''.''))
                           (ftp_set_pasv passive w2)
                in case ftp_cwd upload_dir w3 of
                     (None, w4) \<Rightarrow>
                       (case upload_store file_path upload_dir w4 of (r, w5) \<Rightarrow> (r, True, w5))
                   | (Some e, w4) \<Rightarrow>
                       if is_error_perm e then
                         (let w5 = logging (Info (''Directory '' @ upload_dir
                                     @ '' does not exist. Creating it.'')) w4
                          in case make_dirs (str_split upload_dir (CHR ''/'')) [] w5 of
                               (Some e2, w6) \<Rightarrow>
                                 (Inr None, True,
                                  logging (Error (''Failed to create directory '' @ upload_dir
                                    @ '': '' @ exn_str e2)) w6)
                             | (None, w6) \<Rightarrow>
                                 (case upload_store file_path upload_dir w6 of
                                    (r, w7) \<Rightarrow> (r, True, w7)))
                       else (Inl e, True, w4))))"

text \<open>
  \<open>upload_ftp\<close>: the check of the local file, the \<open>try\<close>, its handler for every
  exception, and the \<open>finally\<close> that quits when \<open>ftp.sock\<close> is set.
\<close>

definition upload_ftp ::
  "string \<Rightarrow> string \<Rightarrow> string \<Rightarrow> string \<Rightarrow> string \<Rightarrow> int \<Rightarrow> bool \<Rightarrow> world
     \<Rightarrow> string option \<times> world" where
  "upload_ftp host username password file_path upload_dir port passive w =
     (if files w file_path = None
      then (None, logging (Error (''The file '' @ file_path @ '' does not exist.'')) w)
      else
        (case upload_try host username password file_path upload_dir port passive w of
           (r, sock, w1) \<Rightarrow>
             (let (res, w2) = (case r of
                                 Inl e \<Rightarrow> (None, logging (Error (''Error uploading file: '' @ exn_str e)) w1)
                               | Inr v \<Rightarrow> (v, w1))
              in if sock
                 then (res, logging (Info (''Disconnected from FTP server '' @ host @ '':''
                               @ str_int port @ ''.'')) (ftp_quit w2))
                 else (res, w2))))"

subsection \<open>Notions used in the statements\<close>

text \<open>
  The contents of \<open>cookies.json\<close> with which lines 161 to 167 of \<open>_request\<close> and lines
  128 to 136 of \<open>_save_cookies\<close> raise nothing: every content but bytes that are no
  text and a JSON document that is no object.
\<close>

fun loadable :: "jar_file \<Rightarrow> bool" where
  "loadable (Undecodable m) = False"
| "loadable (NotObject t) = False"
| "loadable j = True"

text \<open>
  What \<open>session.request\<close> answers to the request that \<open>_request\<close> issues in the
  world \<open>w\<close>, or the exception that ends the dispatch before the request is issued.
\<close>

definition request_answer :: "net \<Rightarrow> string \<Rightarrow> string \<Rightarrow> kwargs \<Rightarrow> http \<Rightarrow> world \<Rightarrow> exn + response" where
  "request_answer net method url kw self w =
     (case load_cookies w of
        Inl e \<Rightarrow> Inl e
      | Inr saved_cookies \<Rightarrow>
          (case dict_merge saved_cookies (cookies self) of
             Inl e \<Rightarrow> Inl e
           | Inr combined_cookies \<Rightarrow>
               net (sent w) (request_kwargs method url kw self combined_cookies)))"


text \<open>
  The progressively longer prefixes of a remote directory name, in the words of the
  specification: the name is split at \<open>/\<close> into its non-empty segments, and the
  \<open>k\<close>-th prefix is the first \<open>k\<close> segments, each after a \<open>/\<close>.
\<close>

definition path_prefixes :: "string \<Rightarrow> string list" where
  "path_prefixes p =
     (let segs = filter (\<lambda>d. d \<noteq> []) (str_split p (CHR ''/''))
      in map (\<lambda>k. concat (map (\<lambda>d. ''/'' @ d) (take k segs))) [1..<Suc (length segs)])"

text \<open>
  The calls that entering one prefix takes: the attempt to enter it and, when the
  directory does not exist, its creation and a second attempt.
\<close>

definition enter_or_create :: "string set \<Rightarrow> string \<Rightarrow> ftp_cmd list" where
  "enter_or_create existing p = (if p \<in> existing then [CWD p] else [CWD p, MKD p, CWD p])"

text \<open>
  The names that the loop of \<open>upload_ftp\<close> builds in \<open>current_dir\<close> from the parts
  of a split name, starting from \<open>cur\<close>.
\<close>

fun prefixes_from :: "string \<Rightarrow> string list \<Rightarrow> string list" where
  "prefixes_from cur [] = []"
| "prefixes_from cur (d # ds) =
     (if d \<noteq> [] then (cur @ ''/'' @ d) # prefixes_from (cur @ ''/'' @ d) ds
      else prefixes_from cur ds)"

subsection \<open>Sample inputs\<close>

text \<open>
  A world without local files, in a working directory whose \<open>cookies.json\<close> has the
  names \<open>cookies.json\<close> and \<open>./cookies.json\<close>. Of the contents a file can get, the bytes
  \<open>[true]\<close> are a JSON array and the bytes \<open>{}\<close> the empty JSON object; the other
  contents that the samples write are no JSON.
\<close>

definition world0 :: world where
  "world0 = \<lparr>jar_file = Missing, jar_write_error = None,
     is_jar = (\<lambda>p. p = ''cookies.json'' \<or> p = ''./cookies.json''),
     json_view = (\<lambda>b. if b = ''[true]'' then DNotObject ''list''
                       else if b = ''{}'' then DObject Map.empty else DMalformed),
     files = Map.empty,
     open_error = (\<lambda>p. None), sent = [], log = [],
     ftp = \<lparr>accepts = True, login_ok = True, dirs = {''/''}, mkd_denied = {},
            stor_ok = True, stored = [], cwd = ''/''\<rparr>,
     ftp_sent = []\<rparr>"

definition resp_ok :: response where
  "resp_ok = \<lparr>status_code = 200, reason = ''OK'', resp_url = ''http://h/x'',
     resp_headers = [''content-type'' \<mapsto> ''application/json''],
     resp_cookies = [(''sid'', ''42'')], resp_text = ''[true]'',
     resp_json = Inr (JArr [JBool True]),
     iter_content = (\<lambda>n. ([''[tr'', [], ''ue]''], None))\<rparr>"

definition resp_404 :: response where
  "resp_404 = \<lparr>status_code = 404, reason = ''Not Found'', resp_url = ''http://h/x'',
     resp_headers = Map.empty,
     resp_cookies = [(''sid'', ''99'')], resp_text = ''missing'',
     resp_json = Inl (JSONDecodeError ''Expecting value''),
     iter_content = (\<lambda>n. ([''missing''], None))\<rparr>"

text \<open>
  A response with status 200 that announces JSON and whose body is none: \<open>response.json()\<close>
  raises the \<open>JSONDecodeError\<close> of \<open>requests\<close>, a \<open>RequestException\<close> without a response.
\<close>

definition resp_bad_json :: response where
  "resp_bad_json = \<lparr>status_code = 200, reason = ''OK'', resp_url = ''http://h/x'',
     resp_headers = [''content-type'' \<mapsto> ''application/json''],
     resp_cookies = [(''sid'', ''42'')], resp_text = ''oops'',
     resp_json = Inl (RequestException ''Expecting value: line 1 column 1 (char 0)'' None),
     iter_content = (\<lambda>n. ([''oops''], None))\<rparr>"


definition net_ok :: net where
  "net_ok hist req = Inr resp_ok"

definition net_bad_json :: net where
  "net_bad_json hist req = Inr resp_bad_json"


text \<open>
  The library refuses a timeout of 0 with a \<open>ValueError\<close> before it sends anything.
\<close>

definition net_timeout :: net where
  "net_timeout hist req =
     (if req_timeout req = Some 0
      then Inl (ValueError (''Attempted to set connect timeout to 0, but the timeout ''
             @ ''cannot be set to a value less than or equal to 0.''))
      else Inr resp_ok)"

definition net_404 :: net where
  "net_404 hist req = Inr resp_404"

definition net_down :: net where
  "net_down hist req = Inl (RequestException ''Connection refused'' None)"

definition no_kwargs :: kwargs where
  "no_kwargs = \<lparr>kw_params = None, kw_json = None\<rparr>"

section \<open>Properties\<close>

declare str_nat.simps [simp del]

subsection \<open>The cookie jar\<close>


lemma load_cookies_loadable:
  "loadable (jar_file w) \<Longrightarrow>
     load_cookies w = Inr (Dict (case jar_file w of Stored m \<Rightarrow> m | _ \<Rightarrow> Map.empty))"
  by (cases "jar_file w") (simp_all add: load_cookies_def)

lemma load_cookies_Undecodable:
  "jar_file w = Undecodable m \<Longrightarrow> load_cookies w = Inl (UnicodeDecodeError m)"
  by (simp add: load_cookies_def)

lemma load_cookies_NotObject:
  "jar_file w = NotObject t \<Longrightarrow> load_cookies w = Inr (NonDict t)"
  by (simp add: load_cookies_def)

lemma loadable_cases:
  "loadable j \<or> (\<exists>m. j = Undecodable m) \<or> (\<exists>t. j = NotObject t)"
  by (cases j) simp_all

lemma save_cookies_fst: "loadable (jar_file w) \<Longrightarrow> fst (save_cookies cj w) = None"
  by (simp add: save_cookies_def load_cookies_loadable Let_def split: option.splits)

lemma save_cookies_case:
  "loadable (jar_file w) \<Longrightarrow>
     (case save_cookies cj w of (x, w2) \<Rightarrow> f x w2) = f None (snd (save_cookies cj w))"
  by (simp add: split_beta save_cookies_fst)

lemma save_cookies_sent: "sent (snd (save_cookies cj w)) = sent w"
  by (cases "jar_file w")
    (simp_all add: save_cookies_def load_cookies_def Let_def split: option.splits)

lemma save_cookies_jar:
  "loadable (jar_file w) \<Longrightarrow>
     jar_file (snd (save_cookies cj w)) =
       (case jar_write_error w of
          None \<Rightarrow> Stored ((case jar_file w of Stored m \<Rightarrow> m | _ \<Rightarrow> Map.empty)
                     ++ dict_from_cookiejar cj)
        | Some m \<Rightarrow> jar_file w)"
  by (simp add: save_cookies_def load_cookies_loadable Let_def split: option.splits)

lemma save_cookies_jar_sent:
  "jar_file (snd (save_cookies cj (w\<lparr>sent := x\<rparr>))) = jar_file (snd (save_cookies cj w))"
  by (cases "jar_file w")
    (simp_all add: save_cookies_def load_cookies_def Let_def split: option.splits)

text \<open>
  C4. When \<open>cookies.json\<close> holds the mapping \<open>D\<close> and can be written, and the response
  cookies are the mapping \<open>N\<close>, \<open>_save_cookies\<close> leaves the file holding \<open>D\<close>
  merged with \<open>N\<close>: a name bound in \<open>N\<close> has its value from \<open>N\<close>, any other name
  its value from \<open>D\<close>.
\<close>

theorem save_cookies_merge:
  assumes "jar_file w = Stored D" and "jar_write_error w = None"
    and "dict_from_cookiejar cj = N"
  shows "jar_file (snd (save_cookies cj w)) = Stored (D ++ N)
    \<and> (\<forall>k. (D ++ N) k = (case N k of Some v \<Rightarrow> Some v | None \<Rightarrow> D k))"
  using assms by (simp add: save_cookies_def load_cookies_def map_add_def)

text \<open>The example of the specification: \<open>{a:1}\<close> on disk and \<open>{a:2, b:3}\<close> new.\<close>

theorem save_cookies_merge_witness:
  "jar_file (snd (save_cookies [(''a'', ''2''), (''b'', ''3'')]
       (world0\<lparr>jar_file := Stored [''a'' \<mapsto> ''1'']\<rparr>)))
     = Stored [''a'' \<mapsto> ''2'', ''b'' \<mapsto> ''3'']"
proof -
  let ?w = "world0\<lparr>jar_file := Stored [''a'' \<mapsto> ''1'']\<rparr>"
  have 1: "jar_file ?w = Stored [''a'' \<mapsto> ''1'']"
    by simp
  have 2: "jar_write_error ?w = None"
    by (simp add: world0_def)
  have 3: "dict_from_cookiejar [(''a'', ''2''), (''b'', ''3'')] = [''a'' \<mapsto> ''2'', ''b'' \<mapsto> ''3'']"
    by (simp add: dict_from_cookiejar_def)
  have 4: "[''a'' \<mapsto> ''1''] ++ [''a'' \<mapsto> ''2'', ''b'' \<mapsto> ''3''] = [''a'' \<mapsto> ''2'', ''b'' \<mapsto> ''3'']"
    by simp
  from save_cookies_merge [OF 1 2 3] show ?thesis
    unfolding 4 by (rule conjunct1)
qed

subsection \<open>Verb dispatch\<close>

lemma raise_for_status_error:
  "400 \<le> status_code r \<Longrightarrow> status_code r < 600 \<Longrightarrow>
     \<exists>m. raise_for_status r = Some (RequestException m (Some (status_code r)))"
  by (simp add: raise_for_status_def)

text \<open>The dispatch when the file loads: lines 169 to 184 are reached.\<close>

lemma request_try_loadable:
  assumes "loadable (jar_file w)"
  shows "request_try net method url kw self w =
     (let req = request_kwargs method url kw self
                  ((case jar_file w of Stored m \<Rightarrow> m | _ \<Rightarrow> Map.empty) ++ cookies self);
          self1 = self\<lparr>error_message := None, error_code := None, base_url := url\<rparr>;
          w1 = w\<lparr>sent := sent w @ [req]\<rparr>
      in case net (sent w) req of
           Inl e \<Rightarrow> (Inl e, self1, w1)
         | Inr response \<Rightarrow>
             (case raise_for_status response of
                Some e \<Rightarrow> (Inl e, self1, w1)
              | None \<Rightarrow> (response_body response, self1,
                         snd (save_cookies (resp_cookies response) w1))))"
  using assms
  by (simp add: request_try_def load_cookies_loadable Let_def save_cookies_case
      split: sum.splits option.splits)

lemma request_answer_loadable:
  "loadable (jar_file w) \<Longrightarrow>
     request_answer net method url kw self w =
       net (sent w) (request_kwargs method url kw self
         ((case jar_file w of Stored m \<Rightarrow> m | _ \<Rightarrow> Map.empty) ++ cookies self))"
  by (simp add: request_answer_def load_cookies_loadable)

text \<open>The dispatch when the file does not load: the exception leaves line 163 or 167.\<close>

lemma request_try_Undecodable:
  "jar_file w = Undecodable m \<Longrightarrow>
     request_try net method url kw self w = (Inl (UnicodeDecodeError m), self, w)"
  by (simp add: request_try_def load_cookies_Undecodable)

lemma request_try_NotObject:
  "jar_file w = NotObject t \<Longrightarrow>
     request_try net method url kw self w
       = (Inl (TypeError ([CHR 0x27] @ t @ [CHR 0x27] @ '' object is not a mapping'')), self, w)"
  by (simp add: request_try_def load_cookies_NotObject)

lemma request_answer_not_loadable:
  "\<not> loadable (jar_file w) \<Longrightarrow> \<exists>e. request_answer net method url kw self w = Inl e
     \<and> \<not> is_RequestException e \<and> request_try net method url kw self w = (Inl e, self, w)"
  using loadable_cases [of "jar_file w"]
  by (auto simp: request_answer_def request_try_def load_cookies_Undecodable load_cookies_NotObject)

lemma request_try_outcome:
  "fst (request_try net method url kw self w) =
     (case request_answer net method url kw self w of
        Inl e \<Rightarrow> Inl e
      | Inr resp \<Rightarrow> (case raise_for_status resp of Some e \<Rightarrow> Inl e | None \<Rightarrow> response_body resp))"
proof (cases "loadable (jar_file w)")
  case True
  then show ?thesis
    by (simp add: request_try_loadable request_answer_loadable Let_def
        split: sum.splits option.splits)
next
  case False
  from request_answer_not_loadable [OF this, of net "method" "url" kw self]
  show ?thesis by auto
qed

lemma request_try_self:
  "loadable (jar_file w) \<Longrightarrow>
     fst (snd (request_try net method url kw self w))
       = self\<lparr>error_message := None, error_code := None, base_url := url\<rparr>"
  by (simp add: request_try_loadable Let_def split: sum.splits option.splits)

lemma request_try_world:
  "loadable (jar_file w) \<Longrightarrow>
   snd (snd (request_try net method url kw self w)) =
     (let w1 = w\<lparr>sent := sent w @ [request_kwargs method url kw self
                  ((case jar_file w of Stored m \<Rightarrow> m | _ \<Rightarrow> Map.empty) ++ cookies self)]\<rparr>
      in case request_answer net method url kw self w of
        Inl e \<Rightarrow> w1
      | Inr resp \<Rightarrow> (case raise_for_status resp of Some e \<Rightarrow> w1
           | None \<Rightarrow> snd (save_cookies (resp_cookies resp) w1)))"
  by (simp add: request_try_loadable request_answer_loadable Let_def
      split: sum.splits option.splits)

lemma request_outcome:
  "fst (request net method url kw self w) = fst (request_try net method url kw self w)"
  by (auto simp: request_def split: prod.splits sum.splits exn.splits)

lemma request_self:
  "loadable (jar_file w) \<Longrightarrow>
   fst (snd (request net method url kw self w)) =
     (case fst (request_try net method url kw self w) of
        Inl (RequestException m st) \<Rightarrow>
          self\<lparr>error_message := Some m, error_code := st, base_url := url\<rparr>
      | _ \<Rightarrow> self\<lparr>error_message := None, error_code := None, base_url := url\<rparr>)"
  using request_try_self [of w net "method" "url" kw self]
  by (auto simp: request_def split: prod.splits sum.splits exn.splits)

lemma request_world:
  "snd (snd (request net method url kw self w)) =
     (let w' = snd (snd (request_try net method url kw self w))
      in case fst (request_try net method url kw self w) of
        Inl (RequestException m st) \<Rightarrow>
          w'\<lparr>log := log w' @ [Error (upper method @ '' request to '' @ url
                 @ '' failed: '' @ m @ '' (code: '' @ str_code st @ '')'')]\<rparr>
      | _ \<Rightarrow> w')"
  by (auto simp: request_def split: prod.splits sum.splits exn.splits)

lemma request_clears:
  "loadable (jar_file w) \<Longrightarrow>
     request net method url kw (self\<lparr>error_message := a, error_code := b\<rparr>) w
       = request net method url kw self w"
  by (simp add: request_def request_try_loadable Let_def request_kwargs_def)

lemma request_not_loadable:
  "jar_file w = Undecodable m \<Longrightarrow>
     request net method url kw self w = (Inl (UnicodeDecodeError m), self, w)"
  "jar_file w = NotObject t \<Longrightarrow>
     request net method url kw self w
       = (Inl (TypeError ([CHR 0x27] @ t @ [CHR 0x27] @ '' object is not a mapping'')), self, w)"
  by (simp_all add: request_def request_try_Undecodable request_try_NotObject)

lemma request_answer_jar_write_error:
  "request_answer net method url kw self (w\<lparr>jar_write_error := x\<rparr>)
     = request_answer net method url kw self w"
  by (simp add: request_answer_def load_cookies_def split: sum.splits)

lemma request_jar_file:
  "jar_file (snd (snd (request net method url kw self w)))
     = jar_file (snd (snd (request_try net method url kw self w)))"
  by (simp add: request_world Let_def split: sum.splits exn.splits)

lemma request_sent:
  "loadable (jar_file w) \<Longrightarrow>
   sent (snd (snd (request net method url kw self w))) =
     sent w @ [request_kwargs method url kw self
        ((case jar_file w of Stored m \<Rightarrow> m | _ \<Rightarrow> Map.empty) ++ cookies self)]"
  by (simp add: request_world request_try_world Let_def save_cookies_sent
      split: sum.splits exn.splits option.splits)

lemma request_sent_not_loadable:
  "\<not> loadable (jar_file w) \<Longrightarrow> sent (snd (snd (request net method url kw self w))) = sent w"
  using request_answer_not_loadable [of w net "method" "url" kw self]
  by (auto simp: request_world Let_def split: sum.splits exn.splits)

text \<open>Sample dispatches, evaluated.\<close>

lemma loadable_world0: "loadable (jar_file world0)"
  by (simp add: world0_def)

lemma answer_404:
  "loadable (jar_file w) \<Longrightarrow> request_answer net_404 method url kw self w = Inr resp_404"
  by (simp add: request_answer_loadable net_404_def)

lemma answer_ok:
  "loadable (jar_file w) \<Longrightarrow> request_answer net_ok method url kw self w = Inr resp_ok"
  by (simp add: request_answer_loadable net_ok_def)

lemma answer_bad_json:
  "loadable (jar_file w) \<Longrightarrow> request_answer net_bad_json method url kw self w = Inr resp_bad_json"
  by (simp add: request_answer_loadable net_bad_json_def)

lemma answer_down:
  "loadable (jar_file w) \<Longrightarrow>
     request_answer net_down method url kw self w = Inl (RequestException ''Connection refused'' None)"
  by (simp add: request_answer_loadable net_down_def)

lemma answer_timeout:
  "loadable (jar_file w) \<Longrightarrow> timeout self = Some 0 \<Longrightarrow>
     request_answer net_timeout method url kw self w
       = Inl (ValueError (''Attempted to set connect timeout to 0, but the timeout ''
             @ ''cannot be set to a value less than or equal to 0.''))"
  by (simp add: request_answer_loadable net_timeout_def request_kwargs_def)

lemma raise_for_status_ok: "raise_for_status resp_ok = None"
  by (simp add: raise_for_status_def resp_ok_def)

lemma raise_for_status_bad_json: "raise_for_status resp_bad_json = None"
  by (simp add: raise_for_status_def resp_bad_json_def)


lemma response_body_ok: "response_body resp_ok = Inr (JsonBody (JArr [JBool True]))"
  by (simp add: response_body_def resp_ok_def header_get_def contains_def str_find_def)

lemma response_body_bad_json:
  "response_body resp_bad_json
     = Inl (RequestException ''Expecting value: line 1 column 1 (char 0)'' None)"
  by (simp add: response_body_def resp_bad_json_def header_get_def contains_def str_find_def)

lemma str_int_404: "str_int 404 = ''404''"
  by code_simp

lemma raise_for_status_404:
  "raise_for_status resp_404
     = Some (RequestException ''404 Client Error: Not Found for url: http://h/x'' (Some 404))"
  by (simp add: raise_for_status_def resp_404_def str_int_404)

lemma resp_cookies_ok: "resp_cookies resp_ok = [(''sid'', ''42'')]"
  by (simp add: resp_ok_def)

lemma resp_cookies_bad_json: "resp_cookies resp_bad_json = [(''sid'', ''42'')]"
  by (simp add: resp_bad_json_def)

lemma verb_dispatch:
  "get net url params self w = request net ''get'' url \<lparr>kw_params = params, kw_json = None\<rparr> self w"
  "post net url data self w = request net ''post'' url \<lparr>kw_params = None, kw_json = data\<rparr> self w"
  "put net url data self w = request net ''put'' url \<lparr>kw_params = None, kw_json = data\<rparr> self w"
  "delete net url self w = request net ''delete'' url \<lparr>kw_params = None, kw_json = None\<rparr> self w"
  by (simp_all add: get_def post_def put_def delete_def)

text \<open>
  C2. A dispatch \<open>_request\<close>, which every verb is (\<open>verb_dispatch\<close>), that finds a
  \<open>cookies.json\<close> which loads (missing, unreadable, no JSON, or a JSON object) ends in
  the same outcome and the same error fields whatever the error fields were before it:
  they are cleared before the request is issued. When it returns a value both fields are
  absent. When it raises a request error, the message is that of the error and the code
  is the status of the response attached to it, absent when there is none. When it
  raises any other exception, both fields are absent. A transport failure of
  \<open>session.request\<close> is raised as it is, and a response with a status from 400 to 599
  is raised as an error that carries that status.
\<close>

theorem request_error_state:
  assumes "loadable (jar_file w)"
    and "request net method url kw self w = (r, self', w')"
  shows "request net method url kw (self\<lparr>error_message := a, error_code := b\<rparr>) w = (r, self', w')
    \<and> (\<forall>v. r = Inr v \<longrightarrow> error_message self' = None \<and> error_code self' = None)
    \<and> (\<forall>m st. r = Inl (RequestException m st) \<longrightarrow> error_message self' = Some m \<and> error_code self' = st)
    \<and> (\<forall>e. r = Inl e \<and> \<not> is_RequestException e \<longrightarrow>
          error_message self' = None \<and> error_code self' = None)
    \<and> (\<forall>m st. request_answer net method url kw self w = Inl (RequestException m st)
          \<longrightarrow> r = Inl (RequestException m st))
    \<and> (\<forall>resp. request_answer net method url kw self w = Inr resp
            \<and> 400 \<le> status_code resp \<and> status_code resp < 600
          \<longrightarrow> (\<exists>m. r = Inl (RequestException m (Some (status_code resp)))))"
proof -
  note ld = assms(1)
  from assms(2) have r: "r = fst (request_try net method url kw self w)"
    using request_outcome [of net "method" "url" kw self w] by simp
  from assms(2) have s: "self' = fst (snd (request net method url kw self w))"
    by simp
  have 1: "request net method url kw (self\<lparr>error_message := a, error_code := b\<rparr>) w = (r, self', w')"
    using assms(2) by (simp add: request_clears [OF ld])
  have 2: "\<forall>v. r = Inr v \<longrightarrow> error_message self' = None \<and> error_code self' = None"
    by (simp add: s request_self [OF ld] r [symmetric])
  have 3: "\<forall>m st. r = Inl (RequestException m st) \<longrightarrow> error_message self' = Some m \<and> error_code self' = st"
    by (simp add: s request_self [OF ld] r [symmetric])
  have 4: "\<forall>e. r = Inl e \<and> \<not> is_RequestException e \<longrightarrow>
          error_message self' = None \<and> error_code self' = None"
  proof (intro allI impI, elim conjE)
    fix e
    assume "r = Inl e" and "\<not> is_RequestException e"
    then show "error_message self' = None \<and> error_code self' = None"
      by (cases e) (simp_all add: s request_self [OF ld] r [symmetric])
  qed
  have 5: "\<forall>m st. request_answer net method url kw self w = Inl (RequestException m st)
          \<longrightarrow> r = Inl (RequestException m st)"
    by (simp add: r request_try_outcome)
  have 6: "\<forall>resp. request_answer net method url kw self w = Inr resp
            \<and> 400 \<le> status_code resp \<and> status_code resp < 600
          \<longrightarrow> (\<exists>m. r = Inl (RequestException m (Some (status_code resp))))"
  proof (intro allI impI, elim conjE)
    fix resp
    assume n: "request_answer net method url kw self w = Inr resp"
      and lo: "400 \<le> status_code resp" and hi: "status_code resp < 600"
    from raise_for_status_error [OF lo hi] obtain m
      where m: "raise_for_status resp = Some (RequestException m (Some (status_code resp)))" ..
    from n m have "r = Inl (RequestException m (Some (status_code resp)))"
      by (simp add: r request_try_outcome)
    then show "\<exists>m. r = Inl (RequestException m (Some (status_code resp)))" ..
  qed
  from 1 2 3 4 5 6 show ?thesis by blast
qed

text \<open>
  A dispatch that gets status 404, one that gets no connection, one that the library
  refuses for its timeout of 0, and a successful one that starts with the error fields
  of a failed one.
\<close>

theorem request_error_state_witness:
  "error_code (fst (snd (request net_404 ''get'' ''http://h/x'' no_kwargs init world0))) = Some 404
   \<and> error_message (fst (snd (request net_404 ''get'' ''http://h/x'' no_kwargs init world0)))
       = Some ''404 Client Error: Not Found for url: http://h/x''
   \<and> error_code (fst (snd (request net_down ''get'' ''http://h/x'' no_kwargs init world0))) = None
   \<and> error_message (fst (snd (request net_down ''get'' ''http://h/x'' no_kwargs init world0)))
       = Some ''Connection refused''
   \<and> error_code (fst (snd (request net_timeout ''get'' ''http://h/x'' no_kwargs
        (set_timeout 0 init) world0))) = None
   \<and> error_message (fst (snd (request net_timeout ''get'' ''http://h/x'' no_kwargs
        (set_timeout 0 init) world0))) = None
   \<and> error_code (fst (snd (request net_ok ''get'' ''http://h/x'' no_kwargs
        (init\<lparr>error_message := Some ''Connection refused'', error_code := Some 404\<rparr>) world0))) = None
   \<and> error_message (fst (snd (request net_ok ''get'' ''http://h/x'' no_kwargs
        (init\<lparr>error_message := Some ''Connection refused'', error_code := Some 404\<rparr>) world0))) = None"
proof -
  let ?K = no_kwargs
  let ?stale = "init\<lparr>error_message := Some ''Connection refused'', error_code := Some 404\<rparr>"
  let ?A = "request net_404 ''get'' ''http://h/x'' ?K init world0"
  let ?B = "request net_down ''get'' ''http://h/x'' ?K init world0"
  let ?C = "request net_ok ''get'' ''http://h/x'' ?K ?stale world0"
  let ?D = "request net_timeout ''get'' ''http://h/x'' ?K (set_timeout 0 init) world0"
  note ld = loadable_world0
  have a: "?A = (fst ?A, fst (snd ?A), snd (snd ?A))"
    and b: "?B = (fst ?B, fst (snd ?B), snd (snd ?B))"
    and c: "?C = (fst ?C, fst (snd ?C), snd (snd ?C))"
    and d: "?D = (fst ?D, fst (snd ?D), snd (snd ?D))"
    by simp_all
  have ra: "fst ?A = Inl (RequestException ''404 Client Error: Not Found for url: http://h/x'' (Some 404))"
    by (simp add: request_outcome request_try_outcome answer_404 [OF ld] raise_for_status_404)
  have rb: "fst ?B = Inl (RequestException ''Connection refused'' None)"
    by (simp add: request_outcome request_try_outcome answer_down [OF ld])
  have rc: "fst ?C = Inr (JsonBody (JArr [JBool True]))"
    by (simp add: request_outcome request_try_outcome answer_ok [OF ld] raise_for_status_ok
        response_body_ok)
  have t0: "timeout (set_timeout 0 init) = Some 0"
    by (simp add: set_timeout_def)
  have rd: "fst ?D = Inl (ValueError (''Attempted to set connect timeout to 0, but the timeout ''
             @ ''cannot be set to a value less than or equal to 0.''))"
    by (simp add: request_outcome request_try_outcome answer_timeout [OF ld t0])
  note ta = request_error_state [OF ld a, THEN conjunct2, THEN conjunct2, THEN conjunct1]
  note tb = request_error_state [OF ld b, THEN conjunct2, THEN conjunct2, THEN conjunct1]
  note tc = request_error_state [OF ld c, THEN conjunct2, THEN conjunct1]
  note td = request_error_state [OF ld d, THEN conjunct2, THEN conjunct2, THEN conjunct2,
    THEN conjunct1]
  have nd: "\<not> is_RequestException (ValueError (''Attempted to set connect timeout to 0, but the timeout ''
             @ ''cannot be set to a value less than or equal to 0.''))"
    by simp
  have 1: "error_message (fst (snd ?A)) = Some ''404 Client Error: Not Found for url: http://h/x''
      \<and> error_code (fst (snd ?A)) = Some 404"
    by (rule ta [rule_format, OF ra])
  have 2: "error_message (fst (snd ?B)) = Some ''Connection refused'' \<and> error_code (fst (snd ?B)) = None"
    by (rule tb [rule_format, OF rb])
  have 3: "error_message (fst (snd ?C)) = None \<and> error_code (fst (snd ?C)) = None"
    by (rule tc [rule_format, OF rc])
  have 4: "error_message (fst (snd ?D)) = None \<and> error_code (fst (snd ?D)) = None"
    by (rule td [rule_format, OF conjI [OF rd nd]])
  from 1 2 3 4 show ?thesis
    by (simp only: simp_thms)
qed

text \<open>
  Two dispatches that fail and do not leave both error fields set. With a timeout of 0
  the library raises a \<open>ValueError\<close>, which the handler of \<open>_request\<close> does not
  catch: the dispatch fails with both fields absent. With a \<open>cookies.json\<close> that
  holds the JSON array \<open>[1, 2]\<close> the \<open>TypeError\<close> of line 167 leaves the dispatch
  before line 177: the fields of an earlier failure are not cleared.
\<close>

theorem request_error_state_counterexample:
  "fst (request net_timeout ''get'' ''http://h/x'' no_kwargs (set_timeout 0 init) world0)
     = Inl (ValueError (''Attempted to set connect timeout to 0, but the timeout ''
             @ ''cannot be set to a value less than or equal to 0.''))
   \<and> error_message (fst (snd (request net_timeout ''get'' ''http://h/x'' no_kwargs
        (set_timeout 0 init) world0))) = None
   \<and> error_code (fst (snd (request net_timeout ''get'' ''http://h/x'' no_kwargs
        (set_timeout 0 init) world0))) = None
   \<and> request net_ok ''get'' ''http://h/x'' no_kwargs
        (init\<lparr>error_message := Some ''Connection refused'', error_code := Some 404\<rparr>)
        (world0\<lparr>jar_file := NotObject ''list''\<rparr>)
     = (Inl (TypeError ([CHR 0x27] @ ''list'' @ [CHR 0x27] @ '' object is not a mapping'')),
        init\<lparr>error_message := Some ''Connection refused'', error_code := Some 404\<rparr>,
        world0\<lparr>jar_file := NotObject ''list''\<rparr>)"
proof -
  let ?D = "request net_timeout ''get'' ''http://h/x'' no_kwargs (set_timeout 0 init) world0"
  note ld = loadable_world0
  have t0: "timeout (set_timeout 0 init) = Some 0"
    by (simp add: set_timeout_def)
  have rd: "fst ?D = Inl (ValueError (''Attempted to set connect timeout to 0, but the timeout ''
             @ ''cannot be set to a value less than or equal to 0.''))"
    by (simp add: request_outcome request_try_outcome answer_timeout [OF ld t0])
  have sd: "fst (snd ?D) = (set_timeout 0 init)\<lparr>error_message := None, error_code := None,
      base_url := ''http://h/x''\<rparr>"
    using rd by (simp add: request_self [OF ld] request_outcome [symmetric])
  have 1: "error_message (fst (snd ?D)) = None" and 2: "error_code (fst (snd ?D)) = None"
    by (simp_all add: sd)
  have 3: "request net_ok ''get'' ''http://h/x'' no_kwargs
        (init\<lparr>error_message := Some ''Connection refused'', error_code := Some 404\<rparr>)
        (world0\<lparr>jar_file := NotObject ''list''\<rparr>)
     = (Inl (TypeError ([CHR 0x27] @ ''list'' @ [CHR 0x27] @ '' object is not a mapping'')),
        init\<lparr>error_message := Some ''Connection refused'', error_code := Some 404\<rparr>,
        world0\<lparr>jar_file := NotObject ''list''\<rparr>)"
    by (rule request_not_loadable(2)) simp
  from rd 1 2 3 show ?thesis by blast
qed

text \<open>
  C3. When the dispatch is stopped before \<open>session.request\<close> answers, or
  \<open>session.request\<close> raises, or it answers with a status from 400 to 599, the
  dispatch leaves \<open>cookies.json\<close> as it was; and when the dispatch has changed the
  file, \<open>session.request\<close> has answered with a response whose status is not an error.
  After such a response the file is what \<open>_save_cookies\<close> makes of it with the
  cookies of the response, whether the body of the response is then returned or the
  reading of the body raises.
\<close>

theorem failed_dispatch_keeps_jar:
  "(\<forall>e. request_answer net method url kw self w = Inl e \<longrightarrow>
       jar_file (snd (snd (request net method url kw self w))) = jar_file w)
    \<and> (\<forall>resp. request_answer net method url kw self w = Inr resp
            \<and> 400 \<le> status_code resp \<and> status_code resp < 600 \<longrightarrow>
       jar_file (snd (snd (request net method url kw self w))) = jar_file w)
    \<and> (jar_file (snd (snd (request net method url kw self w))) \<noteq> jar_file w \<longrightarrow>
          (\<exists>resp. request_answer net method url kw self w = Inr resp
             \<and> \<not> (400 \<le> status_code resp \<and> status_code resp < 600)))
    \<and> (\<forall>resp. request_answer net method url kw self w = Inr resp
            \<and> \<not> (400 \<le> status_code resp \<and> status_code resp < 600) \<longrightarrow>
          fst (request net method url kw self w) = response_body resp
          \<and> jar_file (snd (snd (request net method url kw self w)))
              = jar_file (snd (save_cookies (resp_cookies resp) w)))"
proof -
  have a: "jar_file (snd (snd (request net method url kw self w))) = jar_file w"
    if "request_answer net method url kw self w = Inl e" for e
  proof (cases "loadable (jar_file w)")
    case True
    with that show ?thesis
      by (simp add: request_jar_file request_try_world)
  next
    case False
    from request_answer_not_loadable [OF this, of net "method" "url" kw self]
    show ?thesis
      by (auto simp: request_jar_file)
  qed
  have ld: "loadable (jar_file w)"
    if "request_answer net method url kw self w = Inr resp" for resp
    using that request_answer_not_loadable [of w net "method" "url" kw self] by auto
  have b: "jar_file (snd (snd (request net method url kw self w))) = jar_file w"
    if "request_answer net method url kw self w = Inr resp"
      and "400 \<le> status_code resp" and "status_code resp < 600" for resp
  proof -
    from raise_for_status_error [OF that(2,3)] obtain m
      where "raise_for_status resp = Some (RequestException m (Some (status_code resp)))" ..
    with that(1) ld [OF that(1)] show ?thesis
      by (simp add: request_jar_file request_try_world)
  qed
  have c: "\<exists>resp. request_answer net method url kw self w = Inr resp
             \<and> \<not> (400 \<le> status_code resp \<and> status_code resp < 600)"
    if "jar_file (snd (snd (request net method url kw self w))) \<noteq> jar_file w"
  proof (cases "request_answer net method url kw self w")
    case (Inl e)
    with a that show ?thesis by blast
  next
    case (Inr resp)
    with b that show ?thesis by blast
  qed
  have d: "fst (request net method url kw self w) = response_body resp
          \<and> jar_file (snd (snd (request net method url kw self w)))
              = jar_file (snd (save_cookies (resp_cookies resp) w))"
    if n: "request_answer net method url kw self w = Inr resp"
      and st: "\<not> (400 \<le> status_code resp \<and> status_code resp < 600)" for resp
  proof -
    from st have ok: "raise_for_status resp = None"
      by (auto simp: raise_for_status_def)
    from n ok have 1: "fst (request net method url kw self w) = response_body resp"
      by (simp add: request_outcome request_try_outcome)
    from n ok ld [OF n]
    have 2: "jar_file (snd (snd (request net method url kw self w)))
              = jar_file (snd (save_cookies (resp_cookies resp) w))"
      by (simp add: request_jar_file request_try_world save_cookies_jar_sent)
    from 1 2 show ?thesis ..
  qed
  from a b c d show ?thesis by blast
qed

text \<open>
  A jar \<open>{a:1}\<close> under a dispatch that gets status 404 with a cookie, one that gets no
  connection, and a successful one.
\<close>

theorem failed_dispatch_keeps_jar_witness:
  "jar_file (snd (snd (request net_404 ''get'' ''http://h/x'' no_kwargs init
       (world0\<lparr>jar_file := Stored [''a'' \<mapsto> ''1'']\<rparr>)))) = Stored [''a'' \<mapsto> ''1'']
   \<and> jar_file (snd (snd (request net_down ''get'' ''http://h/x'' no_kwargs init
       (world0\<lparr>jar_file := Stored [''a'' \<mapsto> ''1'']\<rparr>)))) = Stored [''a'' \<mapsto> ''1'']
   \<and> jar_file (snd (snd (request net_ok ''get'' ''http://h/x'' no_kwargs init
       (world0\<lparr>jar_file := Stored [''a'' \<mapsto> ''1'']\<rparr>)))) = Stored [''a'' \<mapsto> ''1'', ''sid'' \<mapsto> ''42'']
   \<and> fst (request net_ok ''get'' ''http://h/x'' no_kwargs init
       (world0\<lparr>jar_file := Stored [''a'' \<mapsto> ''1'']\<rparr>)) = Inr (JsonBody (JArr [JBool True]))"
proof -
  let ?w = "world0\<lparr>jar_file := Stored [''a'' \<mapsto> ''1'']\<rparr>"
  have st: "400 \<le> status_code resp_404 \<and> status_code resp_404 < 600"
    by (simp add: resp_404_def)
  have st_ok: "\<not> (400 \<le> status_code resp_ok \<and> status_code resp_ok < 600)"
    by (simp add: resp_ok_def)
  have j: "jar_file ?w = Stored [''a'' \<mapsto> ''1'']"
    by simp
  have ld: "loadable (jar_file ?w)"
    by simp
  have sv: "jar_file (snd (save_cookies (resp_cookies resp_ok) ?w))
      = Stored [''a'' \<mapsto> ''1'', ''sid'' \<mapsto> ''42'']"
    by (simp add: save_cookies_jar world0_def resp_cookies_ok dict_from_cookiejar_def)
  note t404 = failed_dispatch_keeps_jar [of net_404 "''get''" "''http://h/x''" no_kwargs init ?w]
  note tdown = failed_dispatch_keeps_jar [of net_down "''get''" "''http://h/x''" no_kwargs init ?w]
  note tok = failed_dispatch_keeps_jar [of net_ok "''get''" "''http://h/x''" no_kwargs init ?w]
  from t404 answer_404 [OF ld, of "''get''" "''http://h/x''" no_kwargs init] st j
  have 1: "jar_file (snd (snd (request net_404 ''get'' ''http://h/x'' no_kwargs init ?w)))
      = Stored [''a'' \<mapsto> ''1'']"
    by metis
  from tdown answer_down [OF ld, of "''get''" "''http://h/x''" no_kwargs init] j
  have 2: "jar_file (snd (snd (request net_down ''get'' ''http://h/x'' no_kwargs init ?w)))
      = Stored [''a'' \<mapsto> ''1'']"
    by metis
  from tok answer_ok [OF ld, of "''get''" "''http://h/x''" no_kwargs init] st_ok
  have "fst (request net_ok ''get'' ''http://h/x'' no_kwargs init ?w) = response_body resp_ok
      \<and> jar_file (snd (snd (request net_ok ''get'' ''http://h/x'' no_kwargs init ?w)))
          = jar_file (snd (save_cookies (resp_cookies resp_ok) ?w))"
    by blast
  then have 3: "fst (request net_ok ''get'' ''http://h/x'' no_kwargs init ?w)
        = Inr (JsonBody (JArr [JBool True]))"
    and 4: "jar_file (snd (snd (request net_ok ''get'' ''http://h/x'' no_kwargs init ?w)))
        = Stored [''a'' \<mapsto> ''1'', ''sid'' \<mapsto> ''42'']"
    by (simp_all add: response_body_ok sv)
  from 1 2 3 4 show ?thesis by blast
qed

text \<open>
  A dispatch that fails after it has written the file: the response has status 200 and
  a cookie, and announces a JSON body that is none. \<open>_save_cookies\<close> has run when
  \<open>response.json()\<close> raises; the dispatch raises a request error and sets the error
  fields, and \<open>cookies.json\<close>, which held \<open>{a:1}\<close>, holds the cookie of the response
  too.
\<close>

theorem failed_dispatch_keeps_jar_counterexample:
  "fst (request net_bad_json ''get'' ''http://h/x'' no_kwargs init
       (world0\<lparr>jar_file := Stored [''a'' \<mapsto> ''1'']\<rparr>))
     = Inl (RequestException ''Expecting value: line 1 column 1 (char 0)'' None)
   \<and> error_message (fst (snd (request net_bad_json ''get'' ''http://h/x'' no_kwargs init
       (world0\<lparr>jar_file := Stored [''a'' \<mapsto> ''1'']\<rparr>))))
     = Some ''Expecting value: line 1 column 1 (char 0)''
   \<and> jar_file (snd (snd (request net_bad_json ''get'' ''http://h/x'' no_kwargs init
       (world0\<lparr>jar_file := Stored [''a'' \<mapsto> ''1'']\<rparr>))))
     = Stored [''a'' \<mapsto> ''1'', ''sid'' \<mapsto> ''42'']
   \<and> jar_file (snd (snd (request net_bad_json ''get'' ''http://h/x'' no_kwargs init
       (world0\<lparr>jar_file := Stored [''a'' \<mapsto> ''1'']\<rparr>))))
     \<noteq> jar_file (world0\<lparr>jar_file := Stored [''a'' \<mapsto> ''1'']\<rparr>)"
proof -
  let ?w = "world0\<lparr>jar_file := Stored [''a'' \<mapsto> ''1'']\<rparr>"
  let ?R = "request net_bad_json ''get'' ''http://h/x'' no_kwargs init ?w"
  have ld: "loadable (jar_file ?w)"
    by simp
  have 1: "fst ?R = Inl (RequestException ''Expecting value: line 1 column 1 (char 0)'' None)"
    by (simp add: request_outcome request_try_outcome answer_bad_json [OF ld]
        raise_for_status_bad_json response_body_bad_json)
  have 2: "error_message (fst (snd ?R)) = Some ''Expecting value: line 1 column 1 (char 0)''"
    using 1 by (simp add: request_self [OF ld] request_outcome [symmetric])
  have 3: "jar_file (snd (snd ?R)) = Stored [''a'' \<mapsto> ''1'', ''sid'' \<mapsto> ''42'']"
    using ld
    by (simp add: request_jar_file request_try_world answer_bad_json raise_for_status_bad_json
        Let_def save_cookies_jar world0_def resp_cookies_bad_json dict_from_cookiejar_def)
  have ne: "Stored [''a'' \<mapsto> ''1'', ''sid'' \<mapsto> ''42''] \<noteq> jar_file ?w"
  proof
    assume "Stored [''a'' \<mapsto> ''1'', ''sid'' \<mapsto> ''42''] = jar_file ?w"
    then have "[''a'' \<mapsto> ''1'', ''sid'' \<mapsto> ''42''] ''sid'' = [''a'' \<mapsto> ''1''] ''sid''"
      by simp
    then show False by simp
  qed
  from 1 2 3 ne show ?thesis by simp
qed

text \<open>
  C5. A dispatch that finds a \<open>cookies.json\<close> which loads issues exactly one request,
  and its cookies are the mapping of \<open>cookies.json\<close> (empty when the file is missing,
  unreadable or malformed) merged with \<open>self.cookies\<close>: a name bound in
  \<open>self.cookies\<close> has its value from there, any other name its value from the file.
  With a file that does not load the dispatch issues no request.
\<close>

theorem request_sends_merged_cookies:
  "if loadable (jar_file w)
   then \<exists>req. sent (snd (snd (request net method url kw self w))) = sent w @ [req]
     \<and> req_cookies req = (case jar_file w of Stored m \<Rightarrow> m | _ \<Rightarrow> Map.empty) ++ cookies self
     \<and> (\<forall>k. req_cookies req k =
           (case cookies self k of
              Some v \<Rightarrow> Some v
            | None \<Rightarrow> (case jar_file w of Stored m \<Rightarrow> m k | _ \<Rightarrow> None)))
   else sent (snd (snd (request net method url kw self w))) = sent w"
proof (cases "loadable (jar_file w)")
  case True
  let ?saved = "case jar_file w of Stored m \<Rightarrow> m | _ \<Rightarrow> Map.empty"
  let ?req = "request_kwargs method url kw self (?saved ++ cookies self)"
  have "sent (snd (snd (request net method url kw self w))) = sent w @ [?req]"
    by (rule request_sent [OF True])
  moreover have "req_cookies ?req = ?saved ++ cookies self"
    by (simp add: request_kwargs_def)
  moreover have "\<forall>k. (?saved ++ cookies self) k =
           (case cookies self k of
              Some v \<Rightarrow> Some v
            | None \<Rightarrow> (case jar_file w of Stored m \<Rightarrow> m k | _ \<Rightarrow> None))"
    by (auto simp: map_add_def split: option.splits jar_file.splits)
  ultimately show ?thesis using True by auto
next
  case False
  then show ?thesis
    by (simp add: request_sent_not_loadable)
qed

text \<open>
  A jar \<open>{a:1, b:2}\<close> and a client with the cookie \<open>a=9\<close>: the request carries
  \<open>{a:9, b:2}\<close>.
\<close>

theorem request_sends_merged_cookies_witness:
  "\<exists>req. sent (snd (snd (request net_ok ''get'' ''http://h/x'' no_kwargs (set_cookie ''a'' ''9'' init)
              (world0\<lparr>jar_file := Stored [''a'' \<mapsto> ''1'', ''b'' \<mapsto> ''2'']\<rparr>)))) = [req]
     \<and> req_cookies req = [''a'' \<mapsto> ''9'', ''b'' \<mapsto> ''2'']"
proof -
  let ?w = "world0\<lparr>jar_file := Stored [''a'' \<mapsto> ''1'', ''b'' \<mapsto> ''2'']\<rparr>"
  let ?self = "set_cookie ''a'' ''9'' init"
  have ld: "loadable (jar_file ?w)"
    by simp
  have s: "sent ?w = []"
    by (simp add: world0_def)
  have m: "(case jar_file ?w of Stored m \<Rightarrow> m | _ \<Rightarrow> Map.empty) ++ cookies ?self
      = [''a'' \<mapsto> ''9'', ''b'' \<mapsto> ''2'']"
    by (auto simp: set_cookie_def init_def map_add_def fun_eq_iff)
  note t = request_sends_merged_cookies [of ?w net_ok "''get''" "''http://h/x''" no_kwargs ?self]
  from t obtain req where r: "sent (snd (snd (request net_ok ''get'' ''http://h/x'' no_kwargs ?self ?w)))
        = sent ?w @ [req]
      \<and> req_cookies req = (case jar_file ?w of Stored m \<Rightarrow> m | _ \<Rightarrow> Map.empty) ++ cookies ?self
      \<and> (\<forall>k. req_cookies req k =
           (case cookies ?self k of
              Some v \<Rightarrow> Some v
            | None \<Rightarrow> (case jar_file ?w of Stored m \<Rightarrow> m k | _ \<Rightarrow> None)))"
    unfolding if_P [OF ld] ..
  from r have 1: "sent (snd (snd (request net_ok ''get'' ''http://h/x'' no_kwargs ?self ?w))) = [req]"
    unfolding s by simp
  from r have 2: "req_cookies req = [''a'' \<mapsto> ''9'', ''b'' \<mapsto> ''2'']"
    unfolding m by (rule conjunct2 [THEN conjunct1])
  from 1 2 show ?thesis by blast
qed

text \<open>
  What the handlers of lines 131 and 164 and of line 142 cover. Loading a missing or
  unreadable \<open>cookies.json\<close>, or one that holds no JSON, gives the empty mapping.
  With a file that loads, \<open>_save_cookies\<close> does not raise: when the file cannot be
  written it adds one error line to the log and changes nothing else; and what a
  dispatch returns or raises, and the client it leaves, do not depend on whether the
  file can be written.
\<close>

lemma cookie_jar_tolerated:
  "load_cookies (w\<lparr>jar_file := Missing\<rparr>) = Inr (Dict Map.empty)
   \<and> load_cookies (w\<lparr>jar_file := Unreadable\<rparr>) = Inr (Dict Map.empty)
   \<and> load_cookies (w\<lparr>jar_file := Malformed\<rparr>) = Inr (Dict Map.empty)
   \<and> (loadable (jar_file w) \<longrightarrow> fst (save_cookies cj w) = None)
   \<and> (\<forall>m. loadable (jar_file w) \<and> jar_write_error w = Some m \<longrightarrow>
         snd (save_cookies cj w) = w\<lparr>log := log w @ [Error (''Error saving cookies to file: '' @ m)]\<rparr>)
   \<and> fst (request net method url kw self (w\<lparr>jar_write_error := x\<rparr>))
        = fst (request net method url kw self w)
   \<and> (loadable (jar_file w) \<longrightarrow>
        fst (snd (request net method url kw self (w\<lparr>jar_write_error := x\<rparr>)))
          = fst (snd (request net method url kw self w)))"
proof -
  have a: "load_cookies (w\<lparr>jar_file := Missing\<rparr>) = Inr (Dict Map.empty)"
    "load_cookies (w\<lparr>jar_file := Unreadable\<rparr>) = Inr (Dict Map.empty)"
    "load_cookies (w\<lparr>jar_file := Malformed\<rparr>) = Inr (Dict Map.empty)"
    by (simp_all add: load_cookies_def)
  have b: "loadable (jar_file w) \<longrightarrow> fst (save_cookies cj w) = None"
    by (simp add: save_cookies_fst)
  have c: "\<forall>m. loadable (jar_file w) \<and> jar_write_error w = Some m \<longrightarrow>
         snd (save_cookies cj w) = w\<lparr>log := log w @ [Error (''Error saving cookies to file: '' @ m)]\<rparr>"
    by (simp add: save_cookies_def load_cookies_loadable)
  have d: "fst (request net method url kw self (w\<lparr>jar_write_error := x\<rparr>))
        = fst (request net method url kw self w)"
    by (simp add: request_outcome request_try_outcome request_answer_jar_write_error)
  have e: "loadable (jar_file w) \<longrightarrow>
        fst (snd (request net method url kw self (w\<lparr>jar_write_error := x\<rparr>)))
          = fst (snd (request net method url kw self w))"
    by (simp add: request_self request_try_outcome request_answer_jar_write_error)
  from a b c d e show ?thesis by blast
qed

text \<open>
  C6. A \<open>cookies.json\<close> whose bytes are no text, or that holds a JSON document which
  is no object, is a file that the handlers do not cover: the \<open>UnicodeDecodeError\<close>
  of \<open>json.load\<close>, or the \<open>TypeError\<close> of the dictionary display, leaves
  \<open>_request\<close> before any request is issued, with the client and the world as
  they were, and leaves \<open>_save_cookies\<close> as well.
\<close>

theorem cookie_jar_errors_surface:
  "(jar_file w = Undecodable m \<longrightarrow>
       request net method url kw self w = (Inl (UnicodeDecodeError m), self, w)
       \<and> save_cookies cj w = (Some (UnicodeDecodeError m), w))
   \<and> (jar_file w = NotObject t \<longrightarrow>
       request net method url kw self w
         = (Inl (TypeError ([CHR 0x27] @ t @ [CHR 0x27] @ '' object is not a mapping'')), self, w)
       \<and> save_cookies cj w
         = (Some (TypeError ([CHR 0x27] @ t @ [CHR 0x27] @ '' object is not a mapping'')), w))"
  by (simp add: request_not_loadable save_cookies_def load_cookies_Undecodable
      load_cookies_NotObject)

text \<open>
  A \<open>cookies.json\<close> that holds \<open>[1, 2]\<close>, and one whose first byte is \<open>0xff\<close>: a
  \<open>get\<close> raises, although the server would have answered with status 200.
\<close>

theorem cookie_jar_errors_surface_witness:
  "fst (request net_ok ''get'' ''http://h/x'' no_kwargs init (world0\<lparr>jar_file := NotObject ''list''\<rparr>))
     = Inl (TypeError ([CHR 0x27] @ ''list'' @ [CHR 0x27] @ '' object is not a mapping''))
   \<and> sent (snd (snd (request net_ok ''get'' ''http://h/x'' no_kwargs init
        (world0\<lparr>jar_file := NotObject ''list''\<rparr>)))) = []
   \<and> fst (save_cookies [(''sid'', ''42'')] (world0\<lparr>jar_file := NotObject ''list''\<rparr>))
     = Some (TypeError ([CHR 0x27] @ ''list'' @ [CHR 0x27] @ '' object is not a mapping''))
   \<and> fst (request net_ok ''get'' ''http://h/x'' no_kwargs init
        (world0\<lparr>jar_file := Undecodable (''utf-8 codec cannot decode byte 0xff in position 0: ''
             @ ''invalid start byte'')\<rparr>))
     = Inl (UnicodeDecodeError (''utf-8 codec cannot decode byte 0xff in position 0: ''
             @ ''invalid start byte''))"
proof -
  let ?m = "''utf-8 codec cannot decode byte 0xff in position 0: '' @ ''invalid start byte''"
  let ?w = "world0\<lparr>jar_file := NotObject ''list''\<rparr>"
  let ?u = "world0\<lparr>jar_file := Undecodable ?m\<rparr>"
  have jw: "jar_file ?w = NotObject ''list''" and ju: "jar_file ?u = Undecodable ?m"
    by simp_all
  have s: "sent ?w = []"
    by (simp add: world0_def)
  note tw = cookie_jar_errors_surface
    [of ?w _ net_ok "''get''" "''http://h/x''" no_kwargs init "[(''sid'', ''42'')]" "''list''"]
  note tu = cookie_jar_errors_surface
    [of ?u ?m net_ok "''get''" "''http://h/x''" no_kwargs init _ _]
  from tw jw have 1: "request net_ok ''get'' ''http://h/x'' no_kwargs init ?w
         = (Inl (TypeError ([CHR 0x27] @ ''list'' @ [CHR 0x27] @ '' object is not a mapping'')), init, ?w)"
    and 2: "save_cookies [(''sid'', ''42'')] ?w
         = (Some (TypeError ([CHR 0x27] @ ''list'' @ [CHR 0x27] @ '' object is not a mapping'')), ?w)"
    by blast+
  from tu ju have 3: "request net_ok ''get'' ''http://h/x'' no_kwargs init ?u
         = (Inl (UnicodeDecodeError ?m), init, ?u)"
    by blast
  from 1 2 3 s show ?thesis by simp
qed

subsection \<open>Download\<close>





lemma dl_save_files:
  "files (snd (dl_save response chunk_size d file_name w)) = files w
   \<or> (\<exists>p. path_join d (dl_filename response file_name) = Inr p \<and> \<not> is_jar w p)"
  by (simp add: dl_save_def open_wb_def file_write_def Let_def
      split: option.splits sum.splits prod.splits)


















lemma lower_PUT: "lower ''PUT'' = ''put''"
  by code_simp

text \<open>
  C1. With a download directory given and a method that is neither \<open>get\<close> nor
  \<open>post\<close> in any letter case, \<open>download_large_file\<close> issues no request and writes
  no file, and it returns no failure result: the \<open>ValueError\<close> with the message
  \<open>Unsupported HTTP method\<close> that line 354 raises inside the \<open>try\<close> is none of the
  errors that the handler of line 388 catches, so it leaves the call.
\<close>

theorem download_unsupported_method:
  assumes "download_dir = Some d" and "d \<noteq> []"
    and "lower method \<noteq> ''get''" and "lower method \<noteq> ''post''"
  shows "download_large_file net url method params chunk_size download_dir file_name self w
     = (Inl (ValueError (''Unsupported HTTP method: '' @ method)), w)"
  using assms by (simp add: download_large_file_def dl_try_def)

text \<open>The method \<open>PUT\<close>.\<close>

theorem download_unsupported_method_witness:
  "download_large_file net_ok ''http://h/x'' ''PUT'' None 8192 (Some ''/tmp'') None init world0
     = (Inl (ValueError ''Unsupported HTTP method: PUT''), world0)
   \<and> sent world0 = []"
proof -
  have 1: "Some ''/tmp'' = Some ''/tmp''" and 2: "''/tmp'' \<noteq> []"
    and 3: "lower ''PUT'' \<noteq> ''get''" and 4: "lower ''PUT'' \<noteq> ''post''"
    by (simp_all add: lower_PUT)
  from download_unsupported_method [OF 1 2 3 4]
  have "download_large_file net_ok ''http://h/x'' ''PUT'' None 8192 (Some ''/tmp'') None init world0
     = (Inl (ValueError (''Unsupported HTTP method: '' @ ''PUT'')), world0)" .
  then show ?thesis by (simp add: world0_def)
qed




text \<open>
  C10. A download with a directory and a supported method gets a response whose status
  is no error and whose content length, if any, is a number. When its
  \<open>content-disposition\<close> header is absent or holds no \<open>filename=\<close>, and the caller
  gave no file name, \<open>download_large_file\<close> returns no failure indicator: the
  \<open>TypeError\<close> of \<open>os.path.join\<close> leaves it, and no file is written.
\<close>

theorem download_without_filename_raises:
  assumes "download_dir = Some d" and "d \<noteq> []"
    and "lower method = ''get'' \<and> net (sent w) (session_get url params self) = Inr resp
       \<or> lower method = ''post'' \<and> net (sent w) (session_post url params self) = Inr resp"
    and "raise_for_status resp = None"
    and "case resp_headers resp ''content-length'' of None \<Rightarrow> True | Some v \<Rightarrow> \<not> isl (int_of_str v)"
    and "case resp_headers resp ''content-disposition'' of
           None \<Rightarrow> True | Some cd \<Rightarrow> str_find cd ''filename='' = - 1"
    and "file_name = None"
  shows "fst (download_large_file net url method params chunk_size download_dir file_name self w)
     = Inl (TypeError (''join() argument must be str, bytes, or os.PathLike object, not ''
              @ [CHR 0x27] @ ''NoneType'' @ [CHR 0x27]))
   \<and> files (snd (download_large_file net url method params chunk_size download_dir file_name self w))
     = files w
   \<and> jar_file (snd (download_large_file net url method params chunk_size download_dir file_name self w))
     = jar_file w"
proof -
  let ?e = "TypeError (''join() argument must be str, bytes, or os.PathLike object, not ''
              @ [CHR 0x27] @ ''NoneType'' @ [CHR 0x27])"
  have fn: "dl_filename resp None = None"
    using assms(6) by (auto simp: dl_filename_def Let_def split: option.splits)
  have sv: "dl_save resp chunk_size d None w1 = (Inl ?e, w1)" for w1
    using assms(4,5) fn
    by (auto simp: dl_save_def path_join_def Let_def split: option.splits sum.splits)
  have "dl_try net url method params chunk_size d None self w
      = (Inl ?e,
         w\<lparr>sent := sent w @ [if lower method = ''get'' then session_get url params self
                               else session_post url params self]\<rparr>)"
    using assms(3) by (auto simp: dl_try_def dl_send_def sv)
  with assms(1,2,7) show ?thesis
    by (simp add: download_large_file_def)
qed

text \<open>A \<open>get\<close> answered with status 200 and no \<open>content-disposition\<close>.\<close>

theorem download_without_filename_raises_witness:
  "fst (download_large_file net_ok ''http://h/x'' ''get'' None 8192 (Some ''/tmp'') None init world0)
     = Inl (TypeError (''join() argument must be str, bytes, or os.PathLike object, not ''
              @ [CHR 0x27] @ ''NoneType'' @ [CHR 0x27]))
   \<and> files (snd (download_large_file net_ok ''http://h/x'' ''get'' None 8192 (Some ''/tmp'') None init world0))
     = Map.empty"
proof -
  have 1: "Some ''/tmp'' = Some ''/tmp''" and 2: "''/tmp'' \<noteq> []"
    by simp_all
  have 3: "lower ''get'' = ''get'' \<and> net_ok (sent world0) (session_get ''http://h/x'' None init) = Inr resp_ok
       \<or> lower ''get'' = ''post'' \<and> net_ok (sent world0) (session_post ''http://h/x'' None init) = Inr resp_ok"
    by (simp add: net_ok_def lower_def lower_char_def)
  have 5: "case resp_headers resp_ok ''content-length'' of None \<Rightarrow> True | Some v \<Rightarrow> \<not> isl (int_of_str v)"
    by (simp add: resp_ok_def)
  have 6: "case resp_headers resp_ok ''content-disposition'' of
           None \<Rightarrow> True | Some cd \<Rightarrow> str_find cd ''filename='' = - 1"
    by (simp add: resp_ok_def)
  have 7: "(None :: string option) = None"
    by simp
  from download_without_filename_raises
    [of "Some ''/tmp''" "''/tmp''" "''get''" net_ok world0 "''http://h/x''" None init resp_ok None 8192,
      OF 1 2 3 raise_for_status_ok 5 6 7]
  show ?thesis by (simp add: world0_def)
qed

subsection \<open>FTP upload\<close>

lemma str_split_no_sep: "d \<in> set (str_split p c) \<Longrightarrow> c \<notin> set d"
  by (induction p arbitrary: d) (auto split: if_splits list.splits)

lemma prefixes_from_longer: "q \<in> set (prefixes_from cur ds) \<Longrightarrow> length cur < length q"
proof (induction ds arbitrary: cur)
  case Nil
  then show ?case by simp
next
  case (Cons d ds)
  show ?case
  proof (cases "d = []")
    case True
    with Cons show ?thesis by simp
  next
    case False
    with Cons.prems have "q = cur @ ''/'' @ d \<or> q \<in> set (prefixes_from (cur @ ''/'' @ d) ds)"
      by simp
    then show ?thesis
    proof
      assume "q = cur @ ''/'' @ d"
      then show ?thesis by simp
    next
      assume "q \<in> set (prefixes_from (cur @ ''/'' @ d) ds)"
      from Cons.IH [OF this] show ?thesis by simp
    qed
  qed
qed

lemma prefixes_from_take:
  "prefixes_from cur ds =
     map (\<lambda>k. cur @ concat (map (\<lambda>d. ''/'' @ d) (take k (filter (\<lambda>d. d \<noteq> []) ds))))
       [1..<Suc (length (filter (\<lambda>d. d \<noteq> []) ds))]"
proof (induction ds arbitrary: cur)
  case Nil
  then show ?case by simp
next
  case (Cons d ds)
  let ?segs = "filter (\<lambda>d. d \<noteq> []) ds"
  show ?case
  proof (cases "d = []")
    case True
    with Cons show ?thesis by simp
  next
    case False
    have "[Suc 0..<Suc (Suc (length ?segs))] = Suc 0 # [Suc (Suc 0)..<Suc (Suc (length ?segs))]"
      by (rule upt_conv_Cons) simp
    then have up: "[Suc 0..<Suc (Suc (length ?segs))] = Suc 0 # map Suc [Suc 0..<Suc (length ?segs)]"
      by (simp only: map_Suc_upt)
    from False show ?thesis
      by (simp add: Cons.IH up comp_def del: upt_Suc)
  qed
qed

lemma prefixes_from_split: "prefixes_from [] (str_split p (CHR ''/'')) = path_prefixes p"
  by (simp add: prefixes_from_take path_prefixes_def Let_def)

lemma parent_step:
  assumes "CHR ''/'' \<notin> set d"
  shows "parent (cur @ CHR ''/'' # d) = (if cur = [] then ''/'' else cur)"
proof -
  have "dropWhile (\<lambda>c. c \<noteq> CHR ''/'') (rev d @ CHR ''/'' # rev cur)
      = dropWhile (\<lambda>c. c \<noteq> CHR ''/'') (CHR ''/'' # rev cur)"
    by (rule dropWhile_append2) (use assms in auto)
  then show ?thesis
    by (simp add: parent_def Let_def)
qed

lemma enter_or_create_insert:
  "p \<noteq> q \<Longrightarrow> enter_or_create (insert p D) q = enter_or_create D q"
  by (simp add: enter_or_create_def)

lemma make_dirs_run:
  assumes "\<forall>d \<in> set ds. CHR ''/'' \<notin> set d"
    and "(if cur = [] then ''/'' else cur) \<in> dirs (ftp w)"
    and "set (prefixes_from cur ds) \<inter> mkd_denied (ftp w) = {}"
  shows "make_dirs ds cur w =
     (None, w\<lparr>ftp_sent := ftp_sent w @ concat (map (enter_or_create (dirs (ftp w))) (prefixes_from cur ds)),
              ftp := (ftp w)\<lparr>dirs := dirs (ftp w) \<union> set (prefixes_from cur ds),
                        cwd := last (cwd (ftp w) # prefixes_from cur ds)\<rparr>\<rparr>)"
  using assms
proof (induction ds arbitrary: cur w)
  case Nil
  then show ?case by simp
next
  case (Cons d ds)
  show ?case
  proof (cases "d = []")
    case True
    with Cons.prems have "make_dirs ds cur w =
      (None, w\<lparr>ftp_sent := ftp_sent w @ concat (map (enter_or_create (dirs (ftp w))) (prefixes_from cur ds)),
              ftp := (ftp w)\<lparr>dirs := dirs (ftp w) \<union> set (prefixes_from cur ds),
                        cwd := last (cwd (ftp w) # prefixes_from cur ds)\<rparr>\<rparr>)"
      by (intro Cons.IH) simp_all
    with True show ?thesis by simp
  next
    case False
    let ?p = "cur @ CHR ''/'' # d"
    let ?rest = "prefixes_from ?p ds"
    let ?D = "dirs (ftp w)"
    have ns: "CHR ''/'' \<notin> set d" and nss: "\<forall>d \<in> set ds. CHR ''/'' \<notin> set d"
      using Cons.prems(1) by simp_all
    have par: "parent ?p \<in> ?D"
      using Cons.prems(2) by (simp add: parent_step [OF ns])
    have den: "?p \<notin> mkd_denied (ftp w)" and denr: "set ?rest \<inter> mkd_denied (ftp w) = {}"
      using Cons.prems(3) False by auto
    have notin: "?p \<notin> set ?rest"
      using prefixes_from_longer [of ?p ?p ds] by auto
    show ?thesis
    proof (cases "?p \<in> ?D")
      case True
      let ?w1 = "w\<lparr>ftp_sent := ftp_sent w @ [CWD ?p], ftp := (ftp w)\<lparr>cwd := ?p\<rparr>\<rparr>"
      have c: "ftp_cwd ?p w = (None, ?w1)"
        using True by (simp add: ftp_cwd_def Let_def)
      have ih: "make_dirs ds ?p ?w1 =
        (None, ?w1\<lparr>ftp_sent := ftp_sent ?w1 @ concat (map (enter_or_create (dirs (ftp ?w1))) ?rest),
              ftp := (ftp ?w1)\<lparr>dirs := dirs (ftp ?w1) \<union> set ?rest,
                        cwd := last (cwd (ftp ?w1) # ?rest)\<rparr>\<rparr>)"
        using nss True denr by (intro Cons.IH) simp_all
      have d: "insert ?p (?D \<union> set ?rest) = ?D \<union> set ?rest"
        using True by auto
      have step: "make_dirs (d # ds) cur w = make_dirs ds ?p ?w1"
        using False by (simp add: c Let_def)
      have en: "enter_or_create ?D ?p = [CWD ?p]"
        using True by (simp add: enter_or_create_def)
      show ?thesis
        using False by (simp add: step ih en d del: make_dirs.simps)
    next
      case nex: False
      let ?w1 = "w\<lparr>ftp_sent := ftp_sent w @ [CWD ?p]\<rparr>"
      let ?w2 = "w\<lparr>ftp_sent := ftp_sent w @ [CWD ?p, MKD ?p], ftp := (ftp w)\<lparr>dirs := insert ?p ?D\<rparr>\<rparr>"
      let ?w3 = "w\<lparr>ftp_sent := ftp_sent w @ [CWD ?p, MKD ?p, CWD ?p],
                    ftp := (ftp w)\<lparr>dirs := insert ?p ?D, cwd := ?p\<rparr>\<rparr>"
      have c1: "ftp_cwd ?p w = (Some (error_perm ''550 Failed to change directory.''), ?w1)"
        using nex by (simp add: ftp_cwd_def Let_def)
      have m: "ftp_mkd ?p ?w1 = (None, ?w2)"
        using nex den par by (simp add: ftp_mkd_def Let_def)
      have c2: "ftp_cwd ?p ?w2 = (None, ?w3)"
        by (simp add: ftp_cwd_def Let_def)
      have ih: "make_dirs ds ?p ?w3 =
        (None, ?w3\<lparr>ftp_sent := ftp_sent ?w3 @ concat (map (enter_or_create (dirs (ftp ?w3))) ?rest),
              ftp := (ftp ?w3)\<lparr>dirs := dirs (ftp ?w3) \<union> set ?rest,
                        cwd := last (cwd (ftp ?w3) # ?rest)\<rparr>\<rparr>)"
        using nss denr by (intro Cons.IH) simp_all
      have e: "map (enter_or_create (insert ?p ?D)) ?rest = map (enter_or_create ?D) ?rest"
        using notin by (intro map_cong refl enter_or_create_insert) auto
      have step: "make_dirs (d # ds) cur w = make_dirs ds ?p ?w3"
        using False by (simp add: c1 m c2 Let_def)
      have en: "enter_or_create ?D ?p = [CWD ?p, MKD ?p, CWD ?p]"
        using nex by (simp add: enter_or_create_def)
      show ?thesis
        using False by (simp add: step ih e en del: make_dirs.simps)
    qed
  qed
qed


lemma ftp_connect_ok:
  "accepts (ftp w) \<Longrightarrow>
     ftp_connect host port w = (None, w\<lparr>ftp_sent := ftp_sent w @ [CONNECT host port]\<rparr>)"
  by (simp add: ftp_connect_def Let_def)

lemma ftp_login_ok:
  "login_ok (ftp w) \<Longrightarrow>
     ftp_login user passwd w = (None, w\<lparr>ftp_sent := ftp_sent w @ [LOGIN user passwd]\<rparr>)"
  by (simp add: ftp_login_def Let_def)

lemma ftp_cwd_fail:
  "p \<notin> dirs (ftp w) \<Longrightarrow>
     ftp_cwd p w = (Some (error_perm ''550 Failed to change directory.''),
                    w\<lparr>ftp_sent := ftp_sent w @ [CWD p]\<rparr>)"
  by (simp add: ftp_cwd_def Let_def)

lemma ftp_storbinary_ok:
  "stor_ok (ftp w) \<Longrightarrow>
     ftp_storbinary name content w =
       (None, w\<lparr>ftp_sent := ftp_sent w @ [STOR name content],
                ftp := (ftp w)\<lparr>stored := stored (ftp w) @ [(cwd (ftp w), name, content)]\<rparr>\<rparr>)"
  by (simp add: ftp_storbinary_def Let_def)

lemma make_dirs_split:
  assumes "''/'' \<in> dirs (ftp w)"
    and "set (path_prefixes p) \<inter> mkd_denied (ftp w) = {}"
  shows "make_dirs (str_split p (CHR ''/'')) [] w =
     (None, w\<lparr>ftp_sent := ftp_sent w @ concat (map (enter_or_create (dirs (ftp w))) (path_prefixes p)),
              ftp := (ftp w)\<lparr>dirs := dirs (ftp w) \<union> set (path_prefixes p),
                        cwd := last (cwd (ftp w) # path_prefixes p)\<rparr>\<rparr>)"
  unfolding prefixes_from_split [symmetric]
proof (rule make_dirs_run)
  show "\<forall>d \<in> set (str_split p (CHR ''/'')). CHR ''/'' \<notin> set d"
    by (simp add: str_split_no_sep)
  show "(if [] = [] then ''/'' else []) \<in> dirs (ftp w)"
    using assms(1) by simp
  show "set (prefixes_from [] (str_split p (CHR ''/''))) \<inter> mkd_denied (ftp w) = {}"
    using assms(2) by (simp add: prefixes_from_split)
qed

lemma path_prefixes_abc: "path_prefixes ''/a/b/c'' = [''/a'', ''/a/b'', ''/a/b/c'']"
  by code_simp

lemma basename_f: "basename ''/tmp/f.txt'' = ''f.txt''"
  by (simp add: basename_def)

text \<open>
  C7. When \<open>file_path\<close> is no local file, \<open>upload_ftp\<close> returns \<open>None\<close> at once:
  it logs the error and makes no call on an FTP connection.
\<close>

theorem upload_missing_file:
  assumes "files w file_path = None"
  shows "upload_ftp host username password file_path upload_dir port passive w
     = (None, w\<lparr>log := log w @ [Error (''The file '' @ file_path @ '' does not exist.'')]\<rparr>)
   \<and> ftp_sent (snd (upload_ftp host username password file_path upload_dir port passive w)) = ftp_sent w"
  using assms by (simp add: upload_ftp_def logging_def)

text \<open>An upload from a world without local files.\<close>

theorem upload_missing_file_witness:
  "upload_ftp ''ftp.example'' ''u'' ''p'' ''/tmp/f.txt'' ''/a/b/c'' 21 True world0
     = (None, world0\<lparr>log := [Error ''The file /tmp/f.txt does not exist.'']\<rparr>)
   \<and> ftp_sent (snd (upload_ftp ''ftp.example'' ''u'' ''p'' ''/tmp/f.txt'' ''/a/b/c'' 21 True world0)) = []"
proof -
  have f: "files world0 ''/tmp/f.txt'' = None"
    by (simp add: world0_def)
  have l: "log world0 = []" and t: "ftp_sent world0 = []"
    by (simp_all add: world0_def)
  from upload_missing_file [OF f, of "''ftp.example''" "''u''" "''p''" "''/a/b/c''" 21 True]
  show ?thesis by (simp add: l t)
qed

text \<open>
  C8. The local file exists, the server accepts the connection, the login and the
  stored file, and refuses none of the directories to create; the root exists and
  \<open>upload_dir\<close> does not. Then \<open>upload_ftp\<close> returns \<open>upload_dir\<close>, a \<open>/\<close> and
  the base name of the file. After the failed attempt to enter \<open>upload_dir\<close> its
  calls are, for each progressively longer prefix of \<open>upload_dir\<close> in turn, the
  attempt to enter it and, when it did not exist, its creation and a second attempt;
  then the file is stored in the last prefix and the session is closed. The server
  ends with every prefix as a directory.
\<close>

theorem upload_creates_directories:
  assumes "files w file_path = Some content"
    and "accepts (ftp w)" and "login_ok (ftp w)" and "stor_ok (ftp w)"
    and "upload_dir \<notin> dirs (ftp w)" and "''/'' \<in> dirs (ftp w)"
    and "set (path_prefixes upload_dir) \<inter> mkd_denied (ftp w) = {}"
  shows "fst (upload_ftp host username password file_path upload_dir port passive w)
       = Some (upload_dir @ ''/'' @ basename file_path)
   \<and> ftp_sent (snd (upload_ftp host username password file_path upload_dir port passive w))
       = ftp_sent w @ [CONNECT host port, LOGIN username password, PASV passive, CWD upload_dir]
         @ concat (map (enter_or_create (dirs (ftp w))) (path_prefixes upload_dir))
         @ [STOR (basename file_path) content, QUIT]
   \<and> dirs (ftp (snd (upload_ftp host username password file_path upload_dir port passive w)))
       = dirs (ftp w) \<union> set (path_prefixes upload_dir)
   \<and> stored (ftp (snd (upload_ftp host username password file_path upload_dir port passive w)))
       = stored (ftp w) @ [(last (cwd (ftp w) # path_prefixes upload_dir), basename file_path, content)]"
proof -
  have "upload_try host username password file_path upload_dir port passive w
      = (Inr (Some (upload_dir @ ''/'' @ basename file_path)), True,
         snd (snd (upload_try host username password file_path upload_dir port passive w)))
    \<and> ftp_sent (snd (snd (upload_try host username password file_path upload_dir port passive w)))
      = ftp_sent w @ [CONNECT host port, LOGIN username password, PASV passive, CWD upload_dir]
         @ concat (map (enter_or_create (dirs (ftp w))) (path_prefixes upload_dir))
         @ [STOR (basename file_path) content]
    \<and> dirs (ftp (snd (snd (upload_try host username password file_path upload_dir port passive w))))
      = dirs (ftp w) \<union> set (path_prefixes upload_dir)
    \<and> stored (ftp (snd (snd (upload_try host username password file_path upload_dir port passive w))))
      = stored (ftp w) @ [(last (cwd (ftp w) # path_prefixes upload_dir), basename file_path, content)]"
    using assms
    by (simp add: upload_try_def upload_store_def ftp_connect_ok ftp_login_ok ftp_cwd_fail
        make_dirs_split ftp_storbinary_ok logging_def ftp_set_pasv_def Let_def
        del: make_dirs.simps)
  then obtain w' where
    tr: "upload_try host username password file_path upload_dir port passive w
      = (Inr (Some (upload_dir @ ''/'' @ basename file_path)), True, w')"
    and ts: "ftp_sent w'
      = ftp_sent w @ [CONNECT host port, LOGIN username password, PASV passive, CWD upload_dir]
         @ concat (map (enter_or_create (dirs (ftp w))) (path_prefixes upload_dir))
         @ [STOR (basename file_path) content]"
    and td: "dirs (ftp w') = dirs (ftp w) \<union> set (path_prefixes upload_dir)"
    and tf: "stored (ftp w')
      = stored (ftp w) @ [(last (cwd (ftp w) # path_prefixes upload_dir), basename file_path, content)]"
    by blast
  have "upload_ftp host username password file_path upload_dir port passive w
      = (Some (upload_dir @ ''/'' @ basename file_path),
         logging (Info (''Disconnected from FTP server '' @ host @ '':'' @ str_int port @ ''.''))
           (ftp_quit w'))"
    using assms(1) by (simp add: upload_ftp_def tr)
  then show ?thesis
    by (simp add: ftp_quit_def logging_def ts td tf)
qed

text \<open>
  The path \<open>/a/b/c\<close> on a server that has the root only: the three levels are
  created in order.
\<close>

theorem upload_creates_directories_witness:
  "fst (upload_ftp ''ftp.example'' ''u'' ''p'' ''/tmp/f.txt'' ''/a/b/c'' 21 True
          (world0\<lparr>files := [''/tmp/f.txt'' \<mapsto> ''data'']\<rparr>))
     = Some ''/a/b/c/f.txt''
   \<and> ftp_sent (snd (upload_ftp ''ftp.example'' ''u'' ''p'' ''/tmp/f.txt'' ''/a/b/c'' 21 True
          (world0\<lparr>files := [''/tmp/f.txt'' \<mapsto> ''data'']\<rparr>)))
     = [CONNECT ''ftp.example'' 21, LOGIN ''u'' ''p'', PASV True, CWD ''/a/b/c'',
        CWD ''/a'', MKD ''/a'', CWD ''/a'',
        CWD ''/a/b'', MKD ''/a/b'', CWD ''/a/b'',
        CWD ''/a/b/c'', MKD ''/a/b/c'', CWD ''/a/b/c'',
        STOR ''f.txt'' ''data'', QUIT]
   \<and> dirs (ftp (snd (upload_ftp ''ftp.example'' ''u'' ''p'' ''/tmp/f.txt'' ''/a/b/c'' 21 True
          (world0\<lparr>files := [''/tmp/f.txt'' \<mapsto> ''data'']\<rparr>))))
     = {''/a'', ''/a/b'', ''/a/b/c'', ''/''}
   \<and> stored (ftp (snd (upload_ftp ''ftp.example'' ''u'' ''p'' ''/tmp/f.txt'' ''/a/b/c'' 21 True
          (world0\<lparr>files := [''/tmp/f.txt'' \<mapsto> ''data'']\<rparr>))))
     = [(''/a/b/c'', ''f.txt'', ''data'')]"
proof -
  let ?w = "world0\<lparr>files := [''/tmp/f.txt'' \<mapsto> ''data'']\<rparr>"
  have 1: "files ?w ''/tmp/f.txt'' = Some ''data''"
    by simp
  have 2: "accepts (ftp ?w)" and 3: "login_ok (ftp ?w)" and 4: "stor_ok (ftp ?w)"
    and 5: "''/a/b/c'' \<notin> dirs (ftp ?w)" and 6: "''/'' \<in> dirs (ftp ?w)"
    and 7: "set (path_prefixes ''/a/b/c'') \<inter> mkd_denied (ftp ?w) = {}"
    by (simp_all add: world0_def)
  have w: "ftp_sent world0 = []" "dirs (ftp world0) = {''/''}" "stored (ftp world0) = []"
      "cwd (ftp world0) = ''/''"
    by (simp_all add: world0_def)
  from upload_creates_directories [OF 1 2 3 4 5 6 7, of "''ftp.example''" "''u''" "''p''" 21 True]
  show ?thesis
    by (simp add: w path_prefixes_abc basename_f enter_or_create_def)
qed

end
